theory Spec2Isabelle
  imports Main "HOL-Library.Word"
begin

unbundle bit_operations_syntax

section \<open>Errors and call outcomes\<close>

text \<open>
  The optional capabilities of a contract and the standard families, as the error
  \<^verbatim>\<open>ExtensionNotImplemented(capability, family)\<close> names them.
\<close>

datatype CapabilityName =
  Enumerable | Mintable | BatchMintable | Burnable | LazyMintable
  | Claimable | ClaimableWithConditions | SignatureMintable | Revealable

datatype StandardFamily = ERC20 | ERC721 | ERC1155

datatype error =
  ExtensionNotImplemented CapabilityName StandardFamily
  | NotFoundError
  | AccountNotFound
  | NumericOverflow
  | CallFailed string
  | TypeError string

text \<open>
  What a caller observes of one call. A synchronous function or getter either returns a
  value or throws at the call site. A method declared \<^verbatim>\<open>async\<close> always returns a
  promise: an exception raised in its body never reaches the call site, it rejects that
  promise. \<open>Resolves v\<close> and \<open>Rejects e\<close> say how the returned promise settles.
\<close>

datatype 'a outcome = Returns 'a | Throws error | Resolves 'a | Rejects error

text \<open>A body is run to a value or to the exception it raises.\<close>

definition andThen :: "error + 'a \<Rightarrow> ('a \<Rightarrow> error + 'b) \<Rightarrow> error + 'b" where
  "andThen r k = (case r of Inl e \<Rightarrow> Inl e | Inr v \<Rightarrow> k v)"

definition async :: "error + 'a \<Rightarrow> 'a outcome" where
  "async body = (case body of Inl e \<Rightarrow> Rejects e | Inr v \<Rightarrow> Resolves v)"

definition sync :: "error + 'a \<Rightarrow> 'a outcome" where
  "sync body = (case body of Inl e \<Rightarrow> Throws e | Inr v \<Rightarrow> Returns v)"

text \<open>
  \<^verbatim>\<open>await call\<close> (and \<^verbatim>\<open>return call\<close>) inside an async body: the value of the
  call, or its exception raised in the body.
\<close>

definition await :: "'a outcome \<Rightarrow> error + 'a" where
  "await out =
     (case out of Returns v \<Rightarrow> Inr v | Resolves v \<Rightarrow> Inr v
      | Throws e \<Rightarrow> Inl e | Rejects e \<Rightarrow> Inl e)"

text \<open>\<^verbatim>\<open>promise.catch(handler)\<close>: a rejection becomes the handler's value.\<close>

definition catch :: "error + 'a \<Rightarrow> (error \<Rightarrow> 'a) \<Rightarrow> error + 'a" where
  "catch p handler = (case p of Inl e \<Rightarrow> Inr (handler e) | Inr v \<Rightarrow> Inr v)"

text \<open>\<^verbatim>\<open>await Promise.all([p, q])\<close>: both values, or a rejection.\<close>

definition Promise_all :: "error + 'a \<Rightarrow> error + 'b \<Rightarrow> error + ('a \<times> 'b)" where
  "Promise_all p q =
     (case p of Inl e \<Rightarrow> Inl e
      | Inr x \<Rightarrow> (case q of Inl e \<Rightarrow> Inl e | Inr y \<Rightarrow> Inr (x, y)))"

text \<open>
  \<^verbatim>\<open>BigNumber.toNumber()\<close> of ethers: an arbitrary-precision integer as a JavaScript
  number. It raises an overflow fault when the value needs more than 53 bits.
\<close>

definition toNumber :: "int \<Rightarrow> error + int" where
  "toNumber v = (if \<bar>v\<bar> < 2 ^ 53 then Inr v else Inl NumericOverflow)"

section \<open>Solana NFT collection: the supply of printed editions\<close>

text \<open>
  \<^verbatim>\<open>NFTCollection.supplyOf\<close>. An edition marker account holds
  \<^verbatim>\<open>ledger\<close>, an array of 31 bytes. The chain is a partial map from the number of
  an edition marker to its ledger: \<^verbatim>\<open>EditionMarker.fromAccountAddress\<close> rejects for
  a marker that has no account. \<^verbatim>\<open>findEditionMarkerPda\<close> derives the marker's
  address from the edition number divided by 248, so the address is represented by the
  marker's number. The counters are JavaScript numbers that only grow by 1 from small
  values; they are natural numbers here, and \<^verbatim>\<open>BigInt(totalSupply)\<close> is the
  number itself.
\<close>

type_synonym ledger = "8 word list"

type_synonym chain = "nat \<Rightarrow> ledger option"

definition findEditionMarkerPda :: "nat \<Rightarrow> nat" where
  "findEditionMarkerPda edition = edition div 248"

definition fromAccountAddress :: "chain \<Rightarrow> nat \<Rightarrow> error + ledger" where
  "fromAccountAddress connection address =
     (case connection address of None \<Rightarrow> Inl AccountNotFound | Some l \<Rightarrow> Inr l)"

text \<open>
  JavaScript's \<^verbatim>\<open>a >> b\<close> on a non-negative 32-bit value takes the shift count
  modulo 32; \<^verbatim>\<open>ledger[i]\<close> out of range is \<^verbatim>\<open>undefined\<close>, which
  \<^verbatim>\<open>&\<close> reads as 0. In \<^verbatim>\<open>shiftBase >> editionIndex % (ledgerIndex * 8)\<close>
  the remainder binds tighter than the shift. The subtractions \<^verbatim>\<open>editionIndex - 7\<close>
  and \<^verbatim>\<open>ledgerIndex - 1\<close> are reached with \<open>editionIndex \<ge> 7\<close> and
  \<open>ledgerIndex \<ge> 2\<close> only, and no divisor is 0.
\<close>

definition js_shr :: "nat \<Rightarrow> nat \<Rightarrow> nat" where
  "js_shr a b = drop_bit (b mod 32) a"

definition ledger_at :: "ledger \<Rightarrow> nat \<Rightarrow> nat" where
  "ledger_at l i = (if i < length l then unat (l ! i) else 0)"

definition indexCap :: "nat \<Rightarrow> nat" where
  "indexCap editionMarkerNumber = (if editionMarkerNumber = 0 then 247 else 248)"

definition ledgerIndex :: "nat \<Rightarrow> nat \<Rightarrow> nat" where
  "ledgerIndex editionMarkerNumber editionIndex =
     (if editionMarkerNumber > 0 then editionIndex div 8
      else if editionIndex < 7 then 0
      else (editionIndex - 7) div 8 + 1)"

definition shiftBase :: "nat \<Rightarrow> nat \<Rightarrow> nat" where
  "shiftBase editionMarkerNumber li =
     (let size = (if editionMarkerNumber = 0 \<and> li = 0 then 7 else 8 :: nat)
      in push_bit (size - 1) 1)"

definition bitmask :: "nat \<Rightarrow> nat \<Rightarrow> nat" where
  "bitmask editionMarkerNumber editionIndex =
     (let li = ledgerIndex editionMarkerNumber editionIndex;
          sb = shiftBase editionMarkerNumber li
      in if li = 0 then js_shr sb editionIndex
         else if editionMarkerNumber > 0 then js_shr sb (editionIndex mod (li * 8))
         else if li = 1 then js_shr sb (editionIndex - 7)
         else js_shr sb ((editionIndex - 7) mod ((li - 1) * 8)))"

definition editionExists :: "nat \<Rightarrow> ledger \<Rightarrow> nat \<Rightarrow> bool" where
  "editionExists editionMarkerNumber l editionIndex =
     (ledger_at l (ledgerIndex editionMarkerNumber editionIndex)
        AND bitmask editionMarkerNumber editionIndex \<noteq> 0)"

text \<open>
  The inner \<^verbatim>\<open>for\<close> loop over one marker, from \<open>editionIndex\<close> on. It returns
  the running total and whether it left through \<^verbatim>\<open>break cursedBitwiseLogicLoop\<close>.
\<close>

function forLoop :: "nat \<Rightarrow> ledger \<Rightarrow> nat \<Rightarrow> nat \<Rightarrow> nat \<times> bool" where
  "forLoop editionMarkerNumber l editionIndex totalSupply =
     (if editionIndex < indexCap editionMarkerNumber then
        if editionExists editionMarkerNumber l editionIndex
        then forLoop editionMarkerNumber l (editionIndex + 1) (totalSupply + 1)
        else (totalSupply, True)
      else (totalSupply, False))"
  by pat_completeness auto
termination
  by (relation "measure (\<lambda>(m, l, i, t). indexCap m - i)") auto

declare forLoop.simps [simp del]

text \<open>
  The outer \<^verbatim>\<open>while (true)\<close>: \<open>None\<close> is a loop that never returns,
  \<open>Some (Inl e)\<close> a rejected fetch, \<open>Some (Inr n)\<close> the total at the break.
\<close>

partial_function (option) cursedBitwiseLogicLoop ::
  "chain \<Rightarrow> nat \<Rightarrow> nat \<Rightarrow> (error + nat) option" where
  "cursedBitwiseLogicLoop connection editionMarkerNumber totalSupply =
     (case fromAccountAddress connection (findEditionMarkerPda (editionMarkerNumber * 248)) of
        Inl e \<Rightarrow> Some (Inl e)
      | Inr l \<Rightarrow>
          (case forLoop editionMarkerNumber l 0 totalSupply of
             (n, broke) \<Rightarrow>
               if broke then Some (Inr n)
               else cursedBitwiseLogicLoop connection (editionMarkerNumber + 1) n))"

declare cursedBitwiseLogicLoop.simps [code]

definition supplyOf :: "chain \<Rightarrow> (error + nat) option" where
  "supplyOf connection = cursedBitwiseLogicLoop connection 0 1"

subsection \<open>The ledger in the words of the specification\<close>

text \<open>
  What the source's bit arithmetic is compared with. The ledger is a packed bitmask per
  page: the bit of offset \<open>k\<close> lies in byte \<open>k div 8\<close>, most significant bit first
  (\<^verbatim>\<open>0b11100000\<close> is three set bits, then a gap). The first page loses its first
  bit to the flag and keeps 247 usable bits, every later page has 248. The supply is 1
  plus the number of set bits before the first gap.
\<close>

definition packedBits :: "ledger \<Rightarrow> bool list" where
  "packedBits l = map (\<lambda>k. bit (ledger_at l (k div 8)) (7 - k mod 8)) [0..<248]"

definition usableBits :: "nat \<Rightarrow> ledger \<Rightarrow> bool list" where
  "usableBits page l = (if page = 0 then drop 1 (packedBits l) else packedBits l)"

definition editionBits :: "chain \<Rightarrow> nat \<Rightarrow> nat \<Rightarrow> bool list" where
  "editionBits connection p n =
     concat (map (\<lambda>j. case connection j of None \<Rightarrow> [] | Some l \<Rightarrow> usableBits j l) [p..<p + n])"

definition setBitsBeforeGap :: "bool list \<Rightarrow> nat" where
  "setBitsBeforeGap bs = length (takeWhile (\<lambda>b. b) bs)"

section \<open>SignatureDrop: claimed, unclaimed and total supply\<close>

text \<open>
  The two reads of \<^verbatim>\<open>readContract\<close> that the supply methods of
  \<^verbatim>\<open>signature-drop.ts\<close> make, each with what its promise settles to at one state
  of the chain. The values are \<^verbatim>\<open>BigNumber\<close>s: \<^verbatim>\<open>add\<close> and \<^verbatim>\<open>sub\<close> are exact.
\<close>

record SignatureDropContract =
  totalMinted :: "error + int"
  nextTokenIdToMint :: "error + int"

definition totalClaimedSupply :: "SignatureDropContract \<Rightarrow> int outcome" where
  "totalClaimedSupply readContract = async (totalMinted readContract)"

definition totalUnclaimedSupply :: "SignatureDropContract \<Rightarrow> int outcome" where
  "totalUnclaimedSupply readContract =
     async (andThen (nextTokenIdToMint readContract) (\<lambda>maxSupply.
            andThen (await (totalClaimedSupply readContract)) (\<lambda>claimed.
            Inr (maxSupply - claimed))))"

definition SignatureDrop_totalSupply :: "SignatureDropContract \<Rightarrow> int outcome" where
  "SignatureDrop_totalSupply readContract =
     async (andThen (await (totalClaimedSupply readContract)) (\<lambda>claimed.
            andThen (await (totalUnclaimedSupply readContract)) (\<lambda>unclaimed.
            Inr (claimed + unclaimed))))"

section \<open>Feature detection\<close>

text \<open>
  An interface descriptor is the set of selectors of a deployed contract (the ABI the
  contract wrapper holds). The registry maps the feature names the facade asks for
  (\<^verbatim>\<open>"ERC1155Mintable"\<close>, ...) to their requirements; it is the table of
  \<^verbatim>\<open>constants/erc1155-features\<close> and a parameter here.
\<close>

type_synonym selector = string

type_synonym InterfaceDescriptor = "selector list"

datatype SupportLevel = NONE | PARTIAL | FULL

record CapabilityRequirement =
  required :: "selector list"
  minimal :: "selector list"

type_synonym registry = "string \<Rightarrow> CapabilityRequirement"

text \<open>
  Modelled from the spec: the Capability Probe behind \<^verbatim>\<open>detectContractFeature\<close>
  (\<^verbatim>\<open>common/feature-detection\<close> is not among the sources).
  \<^verbatim>\<open>supports(descriptor, requirement)\<close> is \<open>FULL\<close> if the descriptor covers every
  required selector, \<open>PARTIAL\<close> if it covers the designated minimal subset, else
  \<open>NONE\<close>.
\<close>

definition supports :: "InterfaceDescriptor \<Rightarrow> CapabilityRequirement \<Rightarrow> SupportLevel" where
  "supports D R =
     (if set (required R) \<subseteq> set D then FULL
      else if set (minimal R) \<subseteq> set D then PARTIAL
      else NONE)"

text \<open>The descriptor holds none of the selectors a capability requires.\<close>

definition containsNone :: "InterfaceDescriptor \<Rightarrow> CapabilityRequirement \<Rightarrow> bool" where
  "containsNone D R = (required R \<noteq> [] \<and> list_all (\<lambda>s. s \<notin> set D) (required R))"

type_synonym address = string

text \<open>
  The members of \<^verbatim>\<open>ContractWrapper\<close> that the facade uses: the ABI, what
  \<^verbatim>\<open>getSignerAddress()\<close> settles to (it rejects without a signer), and the reads
  \<^verbatim>\<open>readContract.totalSupply(tokenId)\<close> and \<^verbatim>\<open>readContract.uri(tokenId)\<close>.
\<close>

record ContractWrapper =
  abi :: InterfaceDescriptor
  getSignerAddress :: "error + address"
  readContract_totalSupply :: "int \<Rightarrow> error + int"
  readContract_uri :: "int \<Rightarrow> error + string"

text \<open>
  \<^verbatim>\<open>readContract\<close> has a method for each function of the ABI and no other. A call
  \<^verbatim>\<open>readContract.f(...)\<close> of a function that the ABI does not declare is a call of
  \<^verbatim>\<open>undefined\<close>: it throws a \<^verbatim>\<open>TypeError\<close> at once, before any promise exists.
  Otherwise it returns the promise of the read, given here by what it settles to.
\<close>

definition call_readContract ::
  "ContractWrapper \<Rightarrow> selector \<Rightarrow> error + 'a \<Rightarrow> error + (error + 'a)" where
  "call_readContract cw f settles =
     (if f \<in> set (abi cw) then Inr settles else Inl (TypeError f))"

text \<open>
  Modelled from the spec: \<^verbatim>\<open>detectContractFeature(contractWrapper, featureName)\<close>.
  A handle is constructed if and only if the probe reports \<open>FULL\<close>. The facade has
  one handle class per capability and no degraded variant, so \<open>PARTIAL\<close> support
  constructs nothing in it.
\<close>

definition detectContractFeature :: "registry \<Rightarrow> ContractWrapper \<Rightarrow> string \<Rightarrow> bool" where
  "detectContractFeature reg contractWrapper featureName =
     (supports (abi contractWrapper) (reg featureName) = FULL)"

text \<open>
  Modelled from the spec: the feature constants \<^verbatim>\<open>FEATURE_EDITION_*\<close> of
  \<^verbatim>\<open>constants/erc1155-features\<close>, as the capability and the family that an
  \<^verbatim>\<open>ExtensionNotImplemented\<close> failure carries.
\<close>

record Feature =
  capability :: CapabilityName
  family :: StandardFamily

definition FEATURE_EDITION_ENUMERABLE :: Feature where
  "FEATURE_EDITION_ENUMERABLE = \<lparr>capability = Enumerable, family = ERC1155\<rparr>"

definition FEATURE_EDITION_MINTABLE :: Feature where
  "FEATURE_EDITION_MINTABLE = \<lparr>capability = Mintable, family = ERC1155\<rparr>"

definition FEATURE_EDITION_BATCH_MINTABLE :: Feature where
  "FEATURE_EDITION_BATCH_MINTABLE = \<lparr>capability = BatchMintable, family = ERC1155\<rparr>"

definition FEATURE_EDITION_BURNABLE :: Feature where
  "FEATURE_EDITION_BURNABLE = \<lparr>capability = Burnable, family = ERC1155\<rparr>"

definition FEATURE_EDITION_LAZY_MINTABLE :: Feature where
  "FEATURE_EDITION_LAZY_MINTABLE = \<lparr>capability = LazyMintable, family = ERC1155\<rparr>"

definition FEATURE_EDITION_CLAIMABLE :: Feature where
  "FEATURE_EDITION_CLAIMABLE = \<lparr>capability = Claimable, family = ERC1155\<rparr>"

definition FEATURE_EDITION_CLAIMABLE_WITH_CONDITIONS :: Feature where
  "FEATURE_EDITION_CLAIMABLE_WITH_CONDITIONS =
     \<lparr>capability = ClaimableWithConditions, family = ERC1155\<rparr>"

definition FEATURE_EDITION_SIGNATURE_MINTABLE :: Feature where
  "FEATURE_EDITION_SIGNATURE_MINTABLE = \<lparr>capability = SignatureMintable, family = ERC1155\<rparr>"

definition FEATURE_EDITION_REVEALABLE :: Feature where
  "FEATURE_EDITION_REVEALABLE = \<lparr>capability = Revealable, family = ERC1155\<rparr>"

definition ExtensionNotImplementedError :: "Feature \<Rightarrow> error" where
  "ExtensionNotImplementedError feature =
     ExtensionNotImplemented (capability feature) (family feature)"

text \<open>
  Modelled from the spec: the Guarded Accessor \<^verbatim>\<open>assertEnabled(namespace, feature)\<close>
  of \<^verbatim>\<open>common\<close>. A present handle is returned unchanged; an absent one fails with
  \<^verbatim>\<open>ExtensionNotImplemented\<close> for the feature.
\<close>

definition assertEnabled :: "'a option \<Rightarrow> Feature \<Rightarrow> error + 'a" where
  "assertEnabled namespace feature =
     (case namespace of None \<Rightarrow> Inl (ExtensionNotImplementedError feature) | Some h \<Rightarrow> Inr h)"

section \<open>Capability handles\<close>

text \<open>
  The handle classes are not among the sources. A handle is represented by the
  sub-handles that the facade reads from it; a call of one of its methods by the
  dispatch it receives: the capability, the method and the arguments. What the handle
  then does on the chain is outside this development.
\<close>

datatype dispatch = Dispatch CapabilityName string "string list"

datatype Erc1155Enumerable = Erc1155Enumerable
datatype Erc1155BatchMintable = Erc1155BatchMintable
datatype Erc1155Burnable = Erc1155Burnable
datatype Erc1155Claimable = Erc1155Claimable
datatype DropErc1155ClaimConditions = DropErc1155ClaimConditions
datatype DelayedReveal = DelayedReveal
datatype Erc1155SignatureMintable = Erc1155SignatureMintable

record Erc1155ClaimableWithConditions =
  conditions :: DropErc1155ClaimConditions

record Erc1155Mintable =
  batch :: "Erc1155BatchMintable option"

record Erc1155LazyMintable =
  claimWithConditions :: "Erc1155ClaimableWithConditions option"
  claim :: "Erc1155Claimable option"
  revealer :: "DelayedReveal option"

text \<open>
  Modelled from the spec: the constructors of \<^verbatim>\<open>Erc1155Mintable\<close> and
  \<^verbatim>\<open>Erc1155LazyMintable\<close>, which probe for the capabilities that are reached through
  them (batch minting through the mint handle; claiming and delayed reveal through the
  lazy-mint handle).
\<close>

definition new_Erc1155Mintable :: "registry \<Rightarrow> ContractWrapper \<Rightarrow> Erc1155Mintable" where
  "new_Erc1155Mintable reg contractWrapper =
     \<lparr>batch = (if detectContractFeature reg contractWrapper ''ERC1155BatchMintable''
               then Some Erc1155BatchMintable else None)\<rparr>"

definition new_Erc1155LazyMintable :: "registry \<Rightarrow> ContractWrapper \<Rightarrow> Erc1155LazyMintable" where
  "new_Erc1155LazyMintable reg contractWrapper =
     \<lparr>claimWithConditions =
        (if detectContractFeature reg contractWrapper ''ERC1155ClaimableWithConditions''
         then Some \<lparr>conditions = DropErc1155ClaimConditions\<rparr> else None),
      claim = (if detectContractFeature reg contractWrapper ''ERC1155Claimable''
               then Some Erc1155Claimable else None),
      revealer = (if detectContractFeature reg contractWrapper ''ERC1155Revealable''
                  then Some DelayedReveal else None)\<rparr>"

text \<open>A method call on a live handle.\<close>

definition invoke :: "CapabilityName \<Rightarrow> string \<Rightarrow> string list \<Rightarrow> error + dispatch" where
  "invoke c method args = Inr (Dispatch c method args)"

section \<open>The ERC-1155 facade\<close>

text \<open>
  The storage is consumed through \<^verbatim>\<open>fetchTokenMetadata(tokenId, tokenUri, storage)\<close>
  only; it is represented by what that fetch settles to.
\<close>

type_synonym NFTMetadata = string

type_synonym ThirdwebStorage = "int \<Rightarrow> string \<Rightarrow> error + NFTMetadata"

record NFT =
  owner :: address
  metadata :: NFTMetadata
  nft_type :: string
  nft_supply :: int

definition AddressZero :: address where
  "AddressZero = ''0x0000000000000000000000000000000000000000''"

record Erc1155 =
  contractWrapper :: ContractWrapper
  storage :: ThirdwebStorage
  query :: "Erc1155Enumerable option"
  mintable :: "Erc1155Mintable option"
  burnable :: "Erc1155Burnable option"
  lazyMintable :: "Erc1155LazyMintable option"
  signatureMintable :: "Erc1155SignatureMintable option"

definition detectErc1155Enumerable :: "registry \<Rightarrow> ContractWrapper \<Rightarrow> Erc1155Enumerable option" where
  "detectErc1155Enumerable reg cw =
     (if detectContractFeature reg cw ''ERC1155Enumerable'' then Some Erc1155Enumerable
      else None)"

definition detectErc1155Mintable :: "registry \<Rightarrow> ContractWrapper \<Rightarrow> Erc1155Mintable option" where
  "detectErc1155Mintable reg cw =
     (if detectContractFeature reg cw ''ERC1155Mintable'' then Some (new_Erc1155Mintable reg cw)
      else None)"

definition detectErc1155Burnable :: "registry \<Rightarrow> ContractWrapper \<Rightarrow> Erc1155Burnable option" where
  "detectErc1155Burnable reg cw =
     (if detectContractFeature reg cw ''ERC1155Burnable'' then Some Erc1155Burnable
      else None)"

definition detectErc1155LazyMintable :: "registry \<Rightarrow> ContractWrapper \<Rightarrow> Erc1155LazyMintable option" where
  "detectErc1155LazyMintable reg cw =
     (if detectContractFeature reg cw ''ERC1155LazyMintable''
      then Some (new_Erc1155LazyMintable reg cw)
      else None)"

definition detectErc1155SignatureMintable ::
  "registry \<Rightarrow> ContractWrapper \<Rightarrow> Erc1155SignatureMintable option" where
  "detectErc1155SignatureMintable reg cw =
     (if detectContractFeature reg cw ''ERC1155SignatureMintable''
      then Some Erc1155SignatureMintable
      else None)"

text \<open>The constructor: it stores its arguments and runs the five detections.\<close>

definition new_Erc1155 :: "registry \<Rightarrow> ContractWrapper \<Rightarrow> ThirdwebStorage \<Rightarrow> Erc1155" where
  "new_Erc1155 reg cw st =
     \<lparr>contractWrapper = cw,
      storage = st,
      query = detectErc1155Enumerable reg cw,
      mintable = detectErc1155Mintable reg cw,
      burnable = detectErc1155Burnable reg cw,
      lazyMintable = detectErc1155LazyMintable reg cw,
      signatureMintable = detectErc1155SignatureMintable reg cw\<rparr>"

subsection \<open>The constructor with the probe as a parameter\<close>

text \<open>
  The constructor and its detect helpers once more, with
  \<^verbatim>\<open>detectContractFeature(contractWrapper, featureName)\<close> as a parameter that
  answers or throws, and that may read any part of the wrapper. None of the helpers
  and nothing in the constructor has a \<^verbatim>\<open>try\<close> or a \<^verbatim>\<open>throw\<close>: an exception of
  the probe leaves through the helper and through the constructor. A handle is
  constructed only after the probe has answered \<^verbatim>\<open>true\<close>.
\<close>

type_synonym probe = "ContractWrapper \<Rightarrow> string \<Rightarrow> error + bool"

definition detectWith ::
  "probe \<Rightarrow> ContractWrapper \<Rightarrow> string \<Rightarrow> error + 'h \<Rightarrow> error + 'h option" where
  "detectWith detect cw featureName construct =
     andThen (detect cw featureName) (\<lambda>found.
     if found then andThen construct (\<lambda>h. Inr (Some h)) else Inr None)"

text \<open>
  Modelled from the spec: the constructors of the two handles that hold sub-handles,
  over the same probe.
\<close>

definition new_Erc1155Mintable_with :: "probe \<Rightarrow> ContractWrapper \<Rightarrow> error + Erc1155Mintable" where
  "new_Erc1155Mintable_with detect cw =
     andThen (detectWith detect cw ''ERC1155BatchMintable'' (Inr Erc1155BatchMintable)) (\<lambda>b.
     Inr \<lparr>batch = b\<rparr>)"

definition new_Erc1155LazyMintable_with ::
  "probe \<Rightarrow> ContractWrapper \<Rightarrow> error + Erc1155LazyMintable" where
  "new_Erc1155LazyMintable_with detect cw =
     andThen (detectWith detect cw ''ERC1155ClaimableWithConditions''
                (Inr \<lparr>conditions = DropErc1155ClaimConditions\<rparr>)) (\<lambda>c.
     andThen (detectWith detect cw ''ERC1155Claimable'' (Inr Erc1155Claimable)) (\<lambda>cl.
     andThen (detectWith detect cw ''ERC1155Revealable'' (Inr DelayedReveal)) (\<lambda>r.
     Inr \<lparr>claimWithConditions = c, claim = cl, revealer = r\<rparr>)))"

definition Erc1155_constructor ::
  "probe \<Rightarrow> ContractWrapper \<Rightarrow> ThirdwebStorage \<Rightarrow> error + Erc1155" where
  "Erc1155_constructor detect cw st =
     andThen (detectWith detect cw ''ERC1155Enumerable'' (Inr Erc1155Enumerable)) (\<lambda>q.
     andThen (detectWith detect cw ''ERC1155Mintable''
                (new_Erc1155Mintable_with detect cw)) (\<lambda>m.
     andThen (detectWith detect cw ''ERC1155Burnable'' (Inr Erc1155Burnable)) (\<lambda>b.
     andThen (detectWith detect cw ''ERC1155LazyMintable''
                (new_Erc1155LazyMintable_with detect cw)) (\<lambda>l.
     andThen (detectWith detect cw ''ERC1155SignatureMintable''
                (Inr Erc1155SignatureMintable)) (\<lambda>sm.
     Inr \<lparr>contractWrapper = cw, storage = st, query = q, mintable = m, burnable = b,
          lazyMintable = l, signatureMintable = sm\<rparr>)))))"

text \<open>The probe of the specification: it always answers, from the descriptor alone.\<close>

definition specProbe :: "registry \<Rightarrow> probe" where
  "specProbe reg cw featureName = Inr (detectContractFeature reg cw featureName)"

text \<open>The five feature names that the constructor itself asks for.\<close>

definition facadeFeatures :: "string list" where
  "facadeFeatures =
     [''ERC1155Enumerable'', ''ERC1155Mintable'', ''ERC1155Burnable'',
      ''ERC1155LazyMintable'', ''ERC1155SignatureMintable'']"

text \<open>
  \<^verbatim>\<open>onNetworkUpdated\<close> hands the network to
  \<^verbatim>\<open>contractWrapper.updateSignerOrProvider\<close>, which changes the one wrapper object
  that the facade and its handles share. That method is not among the sources and is
  a parameter. No field of the facade is assigned.
\<close>

type_synonym NetworkOrSignerOrProvider = string

definition onNetworkUpdated ::
  "(ContractWrapper \<Rightarrow> NetworkOrSignerOrProvider \<Rightarrow> ContractWrapper)
     \<Rightarrow> Erc1155 \<Rightarrow> NetworkOrSignerOrProvider \<Rightarrow> Erc1155" where
  "onNetworkUpdated updateSignerOrProvider this network =
     this\<lparr>contractWrapper := updateSignerOrProvider (contractWrapper this) network\<rparr>"

subsection \<open>Standard ERC-1155 functions\<close>

definition getTokenMetadata :: "Erc1155 \<Rightarrow> int \<Rightarrow> NFTMetadata outcome" where
  "getTokenMetadata this tokenId =
     async (andThen (call_readContract (contractWrapper this) ''uri''
                       (readContract_uri (contractWrapper this) tokenId)) (\<lambda>promise.
            andThen promise (\<lambda>tokenUri.
            if tokenUri = [] then Inl NotFoundError
            else storage this tokenId tokenUri)))"

text \<open>
  In \<^verbatim>\<open>get\<close> the elements of the array given to \<^verbatim>\<open>Promise.all\<close> are evaluated
  in order. The first is \<^verbatim>\<open>readContract.totalSupply(tokenId).catch(...)\<close>: the
  handler is attached to the promise that the call returns, so it catches a rejected
  read, and not the \<^verbatim>\<open>TypeError\<close> of a call that the ABI does not provide, which
  leaves \<^verbatim>\<open>get\<close> before \<^verbatim>\<open>getTokenMetadata\<close> is called.
\<close>

definition get :: "Erc1155 \<Rightarrow> int \<Rightarrow> NFT outcome" where
  "get this tokenId =
     async (andThen (call_readContract (contractWrapper this) ''totalSupply''
                       (readContract_totalSupply (contractWrapper this) tokenId)) (\<lambda>promise.
            andThen
              (Promise_all
                 (catch promise (\<lambda>e. 0))
                 (await (getTokenMetadata this tokenId)))
              (\<lambda>(supply, metadata).
                 andThen (toNumber supply) (\<lambda>n.
                 Inr \<lparr>owner = AddressZero, metadata = metadata,
                      nft_type = ''ERC1155'', nft_supply = n\<rparr>))))"

subsection \<open>Enumerable\<close>

definition getAll :: "Erc1155 \<Rightarrow> string \<Rightarrow> dispatch outcome" where
  "getAll this queryParams =
     async (andThen (assertEnabled (query this) FEATURE_EDITION_ENUMERABLE) (\<lambda>h.
            invoke Enumerable ''all'' [queryParams]))"

definition totalCount :: "Erc1155 \<Rightarrow> dispatch outcome" where
  "totalCount this =
     async (andThen (assertEnabled (query this) FEATURE_EDITION_ENUMERABLE) (\<lambda>h.
            invoke Enumerable ''totalCount'' []))"

definition totalCirculatingSupply :: "Erc1155 \<Rightarrow> string \<Rightarrow> dispatch outcome" where
  "totalCirculatingSupply this tokenId =
     async (andThen (assertEnabled (query this) FEATURE_EDITION_ENUMERABLE) (\<lambda>h.
            invoke Enumerable ''totalCirculatingSupply'' [tokenId]))"

definition getOwned :: "Erc1155 \<Rightarrow> string \<Rightarrow> dispatch outcome" where
  "getOwned this walletAddress =
     async (andThen (assertEnabled (query this) FEATURE_EDITION_ENUMERABLE) (\<lambda>h.
            invoke Enumerable ''owned'' [walletAddress]))"

subsection \<open>Mintable and BatchMintable\<close>

definition mintTo :: "Erc1155 \<Rightarrow> address \<Rightarrow> string \<Rightarrow> dispatch outcome" where
  "mintTo this receiver metadataWithSupply =
     async (andThen (assertEnabled (mintable this) FEATURE_EDITION_MINTABLE) (\<lambda>h.
            invoke Mintable ''to'' [receiver, metadataWithSupply]))"

definition mint :: "Erc1155 \<Rightarrow> string \<Rightarrow> dispatch outcome" where
  "mint this metadataWithSupply =
     async (andThen (getSignerAddress (contractWrapper this)) (\<lambda>signer.
            await (mintTo this signer metadataWithSupply)))"

text \<open>
  In \<^verbatim>\<open>assertEnabled(...).additionalSupplyTo(await ..., ...)\<close> the guard is evaluated
  before the argument list.
\<close>

definition mintAdditionalSupply :: "Erc1155 \<Rightarrow> string \<Rightarrow> string \<Rightarrow> dispatch outcome" where
  "mintAdditionalSupply this tokenId additionalSupply =
     async (andThen (assertEnabled (mintable this) FEATURE_EDITION_MINTABLE) (\<lambda>h.
            andThen (getSignerAddress (contractWrapper this)) (\<lambda>signer.
            invoke Mintable ''additionalSupplyTo'' [signer, tokenId, additionalSupply])))"

definition mintAdditionalSupplyTo ::
  "Erc1155 \<Rightarrow> address \<Rightarrow> string \<Rightarrow> string \<Rightarrow> dispatch outcome" where
  "mintAdditionalSupplyTo this receiver tokenId additionalSupply =
     async (andThen (assertEnabled (mintable this) FEATURE_EDITION_MINTABLE) (\<lambda>h.
            invoke Mintable ''additionalSupplyTo'' [receiver, tokenId, additionalSupply]))"

text \<open>\<^verbatim>\<open>this.mintable?.batch\<close>: absent when the mint handle is.\<close>

definition mintable_batch :: "Erc1155 \<Rightarrow> Erc1155BatchMintable option" where
  "mintable_batch this = (case mintable this of None \<Rightarrow> None | Some h \<Rightarrow> batch h)"

definition mintBatchTo :: "Erc1155 \<Rightarrow> address \<Rightarrow> string \<Rightarrow> dispatch outcome" where
  "mintBatchTo this receiver metadataWithSupply =
     async (andThen (assertEnabled (mintable_batch this) FEATURE_EDITION_BATCH_MINTABLE) (\<lambda>h.
            invoke BatchMintable ''to'' [receiver, metadataWithSupply]))"

definition mintBatch :: "Erc1155 \<Rightarrow> string \<Rightarrow> dispatch outcome" where
  "mintBatch this metadataWithSupply =
     async (andThen (getSignerAddress (contractWrapper this)) (\<lambda>signer.
            await (mintBatchTo this signer metadataWithSupply)))"

subsection \<open>Burnable\<close>

definition burn :: "Erc1155 \<Rightarrow> string \<Rightarrow> string \<Rightarrow> dispatch outcome" where
  "burn this tokenId amount =
     async (andThen (assertEnabled (burnable this) FEATURE_EDITION_BURNABLE) (\<lambda>h.
            invoke Burnable ''tokens'' [tokenId, amount]))"

definition burnFrom :: "Erc1155 \<Rightarrow> address \<Rightarrow> string \<Rightarrow> string \<Rightarrow> dispatch outcome" where
  "burnFrom this account tokenId amount =
     async (andThen (assertEnabled (burnable this) FEATURE_EDITION_BURNABLE) (\<lambda>h.
            invoke Burnable ''from'' [account, tokenId, amount]))"

definition burnBatch :: "Erc1155 \<Rightarrow> string \<Rightarrow> string \<Rightarrow> dispatch outcome" where
  "burnBatch this tokenIds amounts =
     async (andThen (assertEnabled (burnable this) FEATURE_EDITION_BURNABLE) (\<lambda>h.
            invoke Burnable ''batch'' [tokenIds, amounts]))"

definition burnBatchFrom :: "Erc1155 \<Rightarrow> address \<Rightarrow> string \<Rightarrow> string \<Rightarrow> dispatch outcome" where
  "burnBatchFrom this account tokenIds amounts =
     async (andThen (assertEnabled (burnable this) FEATURE_EDITION_BURNABLE) (\<lambda>h.
            invoke Burnable ''batchFrom'' [account, tokenIds, amounts]))"

subsection \<open>LazyMintable, Claimable, ClaimableWithConditions, Revealable\<close>

definition lazyMint :: "Erc1155 \<Rightarrow> string \<Rightarrow> string \<Rightarrow> dispatch outcome" where
  "lazyMint this metadatas options =
     async (andThen (assertEnabled (lazyMintable this) FEATURE_EDITION_LAZY_MINTABLE) (\<lambda>h.
            invoke LazyMintable ''lazyMint'' [metadatas, options]))"

definition lazyMintable_claimWithConditions ::
  "Erc1155 \<Rightarrow> Erc1155ClaimableWithConditions option" where
  "lazyMintable_claimWithConditions this =
     (case lazyMintable this of None \<Rightarrow> None | Some h \<Rightarrow> claimWithConditions h)"

definition lazyMintable_claim :: "Erc1155 \<Rightarrow> Erc1155Claimable option" where
  "lazyMintable_claim this = (case lazyMintable this of None \<Rightarrow> None | Some h \<Rightarrow> claim h)"

definition lazyMintable_revealer :: "Erc1155 \<Rightarrow> DelayedReveal option" where
  "lazyMintable_revealer this =
     (case lazyMintable this of None \<Rightarrow> None | Some h \<Rightarrow> revealer h)"

definition getClaimTransaction ::
  "Erc1155 \<Rightarrow> address \<Rightarrow> string \<Rightarrow> string \<Rightarrow> string \<Rightarrow> dispatch outcome" where
  "getClaimTransaction this destinationAddress tokenId quantity options =
     async (case lazyMintable_claimWithConditions this of
              Some c \<Rightarrow> invoke ClaimableWithConditions ''getClaimTransaction''
                          [destinationAddress, tokenId, quantity, options]
            | None \<Rightarrow>
                (case lazyMintable_claim this of
                   Some c \<Rightarrow> invoke Claimable ''getClaimTransaction''
                               [destinationAddress, tokenId, quantity, options]
                 | None \<Rightarrow> Inl (ExtensionNotImplementedError FEATURE_EDITION_CLAIMABLE)))"

text \<open>
  The methods \<^verbatim>\<open>claim\<close> and \<^verbatim>\<open>revealer\<close> of the facade are
  \<open>Erc1155_claim\<close> and \<open>Erc1155_revealer\<close> below: the plain names are the fields of
  the lazy-mint handle.
\<close>

definition claimTo ::
  "Erc1155 \<Rightarrow> address \<Rightarrow> string \<Rightarrow> string \<Rightarrow> string \<Rightarrow> dispatch outcome" where
  "claimTo this destinationAddress tokenId quantity options =
     async (case lazyMintable_claimWithConditions this of
              Some c \<Rightarrow> invoke ClaimableWithConditions ''to''
                          [destinationAddress, tokenId, quantity, options]
            | None \<Rightarrow>
                (case lazyMintable_claim this of
                   Some c \<Rightarrow> invoke Claimable ''to''
                               [destinationAddress, tokenId, quantity, options]
                 | None \<Rightarrow> Inl (ExtensionNotImplementedError FEATURE_EDITION_CLAIMABLE)))"

definition Erc1155_claim :: "Erc1155 \<Rightarrow> string \<Rightarrow> string \<Rightarrow> string \<Rightarrow> dispatch outcome" where
  "Erc1155_claim this tokenId quantity options =
     async (andThen (getSignerAddress (contractWrapper this)) (\<lambda>signer.
            await (claimTo this signer tokenId quantity options)))"

text \<open>The three getters are synchronous.\<close>

definition claimConditions :: "Erc1155 \<Rightarrow> DropErc1155ClaimConditions outcome" where
  "claimConditions this =
     sync (andThen (assertEnabled (lazyMintable_claimWithConditions this)
                      FEATURE_EDITION_CLAIMABLE_WITH_CONDITIONS) (\<lambda>h.
           Inr (conditions h)))"

definition signature :: "Erc1155 \<Rightarrow> Erc1155SignatureMintable outcome" where
  "signature this =
     sync (assertEnabled (signatureMintable this) FEATURE_EDITION_SIGNATURE_MINTABLE)"

definition Erc1155_revealer :: "Erc1155 \<Rightarrow> DelayedReveal outcome" where
  "Erc1155_revealer this =
     sync (assertEnabled (lazyMintable_revealer this) FEATURE_EDITION_REVEALABLE)"

section \<open>Example inputs\<close>

text \<open>
  The ledger of the worked example: the seven usable bits of byte 0 set, then
  \<^verbatim>\<open>0b11100000\<close>, on the only edition marker there is.
\<close>

definition exampleConnection :: chain where
  "exampleConnection = (\<lambda>j. if j = 0 then Some (0x7F # 0xE0 # replicate 29 0) else None)"

text \<open>A first marker with every usable bit set, and a second one with two.\<close>

definition twoMarkers :: chain where
  "twoMarkers =
     (\<lambda>j. if j = 0 then Some (replicate 31 0xFF)
          else if j = 1 then Some (0xC0 # replicate 30 0)
          else None)"

text \<open>A SignatureDrop with 3 of its 10 lazily minted tokens claimed.\<close>

definition exampleDrop :: SignatureDropContract where
  "exampleDrop = \<lparr>totalMinted = Inr 3, nextTokenIdToMint = Inr 10\<rparr>"

text \<open>A registry with one requirement per feature name.\<close>

definition requirement :: "selector list \<Rightarrow> CapabilityRequirement" where
  "requirement sels = \<lparr>required = sels, minimal = take 1 sels\<rparr>"

definition exampleRegistry :: registry where
  "exampleRegistry featureName =
     (if featureName = ''ERC1155Enumerable'' then requirement [''nextTokenIdToMint'']
      else if featureName = ''ERC1155Mintable'' then requirement [''mintTo'']
      else if featureName = ''ERC1155BatchMintable'' then requirement [''multicall'']
      else if featureName = ''ERC1155Burnable'' then requirement [''burn'', ''burnBatch'']
      else if featureName = ''ERC1155LazyMintable'' then requirement [''lazyMint'']
      else if featureName = ''ERC1155SignatureMintable''
        then requirement [''mintWithSignature'', ''verify'']
      else if featureName = ''ERC1155Claimable'' then requirement [''claim'', ''verifyClaim'']
      else if featureName = ''ERC1155ClaimableWithConditions''
        then requirement [''claim'', ''setClaimConditions'']
      else if featureName = ''ERC1155Revealable'' then requirement [''reveal'']
      else requirement [''unknown''])"

definition coreSelectors :: InterfaceDescriptor where
  "coreSelectors = [''balanceOf'', ''isApprovedForAll'', ''safeTransferFrom'', ''uri'']"

text \<open>
  A contract with the ERC-1155 core and the burn selectors only, with a signer. Every
  read of a total supply would reject, and its metadata can be fetched.
\<close>

definition burnOnlyWrapper :: ContractWrapper where
  "burnOnlyWrapper =
     \<lparr>abi = coreSelectors @ [''burn'', ''burnBatch''],
      getSignerAddress = Inr ''0xsigner'',
      readContract_totalSupply = (\<lambda>tokenId. Inl (CallFailed ''totalSupply'')),
      readContract_uri = (\<lambda>tokenId. Inr ''ipfs://token'')\<rparr>"

text \<open>A contract with the core selectors only, read without a signer.\<close>

definition readOnlyWrapper :: ContractWrapper where
  "readOnlyWrapper =
     burnOnlyWrapper\<lparr>abi := coreSelectors, getSignerAddress := Inl (CallFailed ''no signer'')\<rparr>"

text \<open>A synthetic contract with the batch-mint selectors and no mint selector.\<close>

definition batchOnlyWrapper :: ContractWrapper where
  "batchOnlyWrapper = burnOnlyWrapper\<lparr>abi := coreSelectors @ [''multicall'']\<rparr>"

text \<open>A contract with the mint and the batch-mint selectors.\<close>

definition mintingWrapper :: ContractWrapper where
  "mintingWrapper = burnOnlyWrapper\<lparr>abi := coreSelectors @ [''mintTo'', ''multicall'']\<rparr>"

text \<open>
  A contract with the lazy-mint selector and none of the selectors of the capabilities
  reached through the lazy-mint handle.
\<close>

definition lazyOnlyWrapper :: ContractWrapper where
  "lazyOnlyWrapper = burnOnlyWrapper\<lparr>abi := coreSelectors @ [''lazyMint'']\<rparr>"

text \<open>
  A registry in which Claimable and ClaimableWithConditions share no selector, and a
  contract with the lazy-mint and the claim-condition selectors.
\<close>

definition conditionsRegistry :: registry where
  "conditionsRegistry featureName =
     (if featureName = ''ERC1155Claimable'' then requirement [''verifyClaim'']
      else exampleRegistry featureName)"

definition conditionsWrapper :: ContractWrapper where
  "conditionsWrapper =
     burnOnlyWrapper\<lparr>abi := coreSelectors @ [''lazyMint'', ''claim'', ''setClaimConditions'']\<rparr>"

text \<open>
  A contract whose ABI declares \<^verbatim>\<open>totalSupply\<close>; the read rejects (the token does
  not exist).
\<close>

definition supplyWrapper :: ContractWrapper where
  "supplyWrapper = burnOnlyWrapper\<lparr>abi := coreSelectors @ [''totalSupply'']\<rparr>"

text \<open>The same contract when its \<^verbatim>\<open>uri\<close> read rejects.\<close>

definition noMetadataWrapper :: ContractWrapper where
  "noMetadataWrapper = supplyWrapper\<lparr>readContract_uri := (\<lambda>tokenId. Inl (CallFailed ''uri''))\<rparr>"

text \<open>The same contract for a token whose total supply is \<open>2 ^ 53\<close>.\<close>

definition hugeSupplyWrapper :: ContractWrapper where
  "hugeSupplyWrapper = supplyWrapper\<lparr>readContract_totalSupply := (\<lambda>tokenId. Inr (2 ^ 53))\<rparr>"

text \<open>A probe that reads the signer of the wrapper instead of its descriptor.\<close>

definition signerProbe :: probe where
  "signerProbe cw featureName = Inr (getSignerAddress cw = Inr ''0xsigner'')"

text \<open>A probe that throws when it is asked for Burnable, and finds nothing else.\<close>

definition failingProbe :: probe where
  "failingProbe cw featureName =
     (if featureName = ''ERC1155Burnable'' then Inl (CallFailed ''probe'') else Inr False)"

text \<open>The facade with every handle, and the facade with none.\<close>

definition everyHandle :: "ContractWrapper \<Rightarrow> ThirdwebStorage \<Rightarrow> Erc1155" where
  "everyHandle cw st =
     \<lparr>contractWrapper = cw, storage = st,
      query = Some Erc1155Enumerable,
      mintable = Some \<lparr>batch = Some Erc1155BatchMintable\<rparr>,
      burnable = Some Erc1155Burnable,
      lazyMintable = Some \<lparr>claimWithConditions = Some \<lparr>conditions = DropErc1155ClaimConditions\<rparr>,
                           claim = Some Erc1155Claimable, revealer = Some DelayedReveal\<rparr>,
      signatureMintable = Some Erc1155SignatureMintable\<rparr>"

definition noHandle :: "ContractWrapper \<Rightarrow> ThirdwebStorage \<Rightarrow> Erc1155" where
  "noHandle cw st =
     \<lparr>contractWrapper = cw, storage = st, query = None, mintable = None, burnable = None,
      lazyMintable = None, signatureMintable = None\<rparr>"

definition exampleStorage :: ThirdwebStorage where
  "exampleStorage = (\<lambda>tokenId tokenUri. Inr ''{name: token}'')"

text \<open>
  An update of the wrapper that, on the network \<open>other\<close>, meets a contract with the
  core selectors only.
\<close>

definition switchNetwork :: "ContractWrapper \<Rightarrow> NetworkOrSignerOrProvider \<Rightarrow> ContractWrapper" where
  "switchNetwork cw network = (if network = ''other'' then cw\<lparr>abi := coreSelectors\<rparr> else cw)"

text \<open>An update that only replaces the signer.\<close>

definition switchSigner :: "ContractWrapper \<Rightarrow> NetworkOrSignerOrProvider \<Rightarrow> ContractWrapper" where
  "switchSigner cw network = cw\<lparr>getSignerAddress := Inr network\<rparr>"

section \<open>The edition supply: reading the packed ledger\<close>

lemma fetch_page: "findEditionMarkerPda (m * 248) = m"
  by (simp add: findEditionMarkerPda_def)

lemma and_exp_neq0: "((x::nat) AND 2 ^ n \<noteq> 0) = bit x n"
  by (simp add: and_exp_eq_0_iff_not_bit)

lemma and_exp_pos: "(0 < (x::nat) AND 2 ^ n) = bit x n"
  using and_exp_neq0 [of x n] by simp

lemma js_shr_exp: "k \<le> n \<Longrightarrow> n < 32 \<Longrightarrow> js_shr (2 ^ n) k = 2 ^ (n - k)"
  by (simp add: js_shr_def drop_bit_exp_eq)

lemma mod_chunk:
  assumes "0 < d" and "i div 8 = d"
  shows "i mod (d * 8) = i mod (8::nat)"
proof -
  have split: "i = i mod 8 + d * 8"
    using assms(2) div_mult_mod_eq [of i 8] by simp
  have small: "i mod 8 < d * 8"
    using assms(1) by (simp add: less_le_trans [of "i mod 8" 8 "d * 8"])
  have "i mod (d * 8) = (i mod 8 + d * 8) mod (d * 8)"
    using split by simp
  also have "\<dots> = i mod 8"
    using small by simp
  finally show ?thesis .
qed

lemma js_shr_128: "k \<le> 7 \<Longrightarrow> js_shr 128 k = 2 ^ (7 - k)"
  using js_shr_exp [of k 7] by simp

lemma js_shr_64: "k \<le> 6 \<Longrightarrow> js_shr 64 k = 2 ^ (6 - k)"
  using js_shr_exp [of k 6] by simp

lemma shiftBase_simps: "shiftBase 0 0 = 64" "0 < m \<Longrightarrow> shiftBase m li = 128" "0 < li \<Longrightarrow> shiftBase m li = 128"
  by (simp_all add: shiftBase_def)

lemma bitmask_later: 
  assumes "0 < m"
  shows "bitmask m i = 2 ^ (7 - i mod 8)"
proof (cases "i div 8 = 0")
  case True
  then have "i < 8" by (simp add: div_eq_0_iff)
  then show ?thesis using assms True 
    by (simp add: bitmask_def ledgerIndex_def shiftBase_simps js_shr_128 js_shr_64 Let_def)
next
  case False
  then have "i mod (i div 8 * 8) = i mod 8" by (simp add: mod_chunk)
  moreover have "i mod 8 \<le> 7" by simp
  ultimately show ?thesis using assms False
    by (simp add: bitmask_def ledgerIndex_def shiftBase_simps js_shr_128 js_shr_64 Let_def)
qed

lemma bitmask_first:
  "bitmask 0 i = 2 ^ (7 - (i + 1) mod 8)"
proof (cases "i < 7")
  case True
  then have "(i + 1) mod 8 = i + 1" by simp
  then show ?thesis using True
    by (simp add: bitmask_def ledgerIndex_def shiftBase_simps js_shr_128 js_shr_64 Let_def)
next
  case False
  then obtain j where j: "i = j + 7" by (metis add.commute le_Suc_ex not_less)
  have m: "(i + 1) mod 8 = j mod 8" using j by (simp add: mod_simps)
  show ?thesis
  proof (cases "j div 8 = 0")
    case True
    then have "j < 8" by (simp add: div_eq_0_iff)
    then show ?thesis using j True m
      by (simp add: bitmask_def ledgerIndex_def shiftBase_simps js_shr_128 js_shr_64 Let_def)
  next
    case F: False
    then have "j mod (j div 8 * 8) = j mod 8" by (simp add: mod_chunk)
    moreover have "j mod 8 \<le> 7" by simp
    ultimately show ?thesis using j F m
      by (simp add: bitmask_def ledgerIndex_def shiftBase_simps js_shr_128 js_shr_64 Let_def)
  qed
qed

lemma ledgerIndex_first: "ledgerIndex 0 i = (i + 1) div 8"
proof (cases "i < 7")
  case True then show ?thesis by (simp add: ledgerIndex_def)
next
  case False
  then obtain j where j: "i = j + 7" by (metis add.commute le_Suc_ex not_less)
  then show ?thesis by (simp add: ledgerIndex_def)
qed

lemma editionExists_packed:
  "editionExists m l i = bit (ledger_at l ((if m = 0 then i + 1 else i) div 8)) (7 - (if m = 0 then i + 1 else i) mod 8)"
proof (cases "m = 0")
  case True
  then show ?thesis
    by (simp add: editionExists_def bitmask_first ledgerIndex_first and_exp_pos)
next
  case False
  then show ?thesis
    by (simp add: editionExists_def bitmask_later ledgerIndex_def and_exp_pos)
qed

lemma length_usableBits: "length (usableBits m l) = indexCap m"
  by (simp add: usableBits_def packedBits_def indexCap_def)

lemma editionExists_usableBits:
  "i < indexCap m \<Longrightarrow> editionExists m l i = usableBits m l ! i"
  by (auto simp add: editionExists_packed usableBits_def packedBits_def indexCap_def add.commute nth_map_upt simp del: upt_Suc)

lemma forLoop_takeWhile:
  "i \<le> indexCap m \<Longrightarrow>
   forLoop m l i ts =
     (ts + setBitsBeforeGap (drop i (usableBits m l)), False \<in> set (drop i (usableBits m l)))"
proof (induction m l i ts rule: forLoop.induct)
  case (1 m l i ts)
  show ?case
  proof (cases "i < indexCap m")
    case False
    then have "drop i (usableBits m l) = []"
      by (simp add: length_usableBits)
    then show ?thesis
      using False by (subst forLoop.simps) (simp add: setBitsBeforeGap_def)
  next
    case True
    then have cons: "drop i (usableBits m l) = usableBits m l ! i # drop (i + 1) (usableBits m l)"
      by (simp add: Cons_nth_drop_Suc length_usableBits)
    have ex: "editionExists m l i = usableBits m l ! i"
      using True by (rule editionExists_usableBits)
    show ?thesis
    proof (cases "usableBits m l ! i")
      case set: True
      then have "forLoop m l i ts = forLoop m l (i + 1) (ts + 1)"
        using True ex by (subst forLoop.simps) simp
      also have "\<dots> = (ts + 1 + setBitsBeforeGap (drop (i + 1) (usableBits m l)),
                        False \<in> set (drop (i + 1) (usableBits m l)))"
        using "1.IH" True ex set by simp
      finally show ?thesis
        using set by (simp add: cons setBitsBeforeGap_def)
    next
      case unset: False
      then have "forLoop m l i ts = (ts, True)"
        using True ex by (subst forLoop.simps) simp
      then show ?thesis
        using unset by (simp add: cons setBitsBeforeGap_def)
    qed
  qed
qed

lemma forLoop_page:
  "forLoop m l 0 ts = (ts + setBitsBeforeGap (usableBits m l), False \<in> set (usableBits m l))"
  using forLoop_takeWhile [of 0 m l ts] by simp

lemma editionBits_Suc:
  "editionBits c p (Suc n) =
     (case c p of None \<Rightarrow> [] | Some l \<Rightarrow> usableBits p l) @ editionBits c (Suc p) n"
  by (simp add: editionBits_def upt_conv_Cons del: upt_Suc)

lemma setBitsBeforeGap_gap:
  "False \<in> set xs \<Longrightarrow> setBitsBeforeGap (xs @ ys) = setBitsBeforeGap xs"
  by (induction xs) (auto simp add: setBitsBeforeGap_def)

lemma setBitsBeforeGap_full:
  "False \<notin> set xs \<Longrightarrow> setBitsBeforeGap (xs @ ys) = length xs + setBitsBeforeGap ys"
  by (induction xs) (auto simp add: setBitsBeforeGap_def)

lemma loop_pages:
  "(\<forall>j<n. c (p + j) \<noteq> None) \<Longrightarrow> False \<in> set (editionBits c p n) \<Longrightarrow>
   cursedBitwiseLogicLoop c p ts = Some (Inr (ts + setBitsBeforeGap (editionBits c p n)))"
proof (induction n arbitrary: p ts)
  case 0
  then show ?case by (simp add: editionBits_def)
next
  case (Suc n)
  from Suc.prems(1) obtain l where l: "c p = Some l"
    by (metis add.right_neutral not_None_eq zero_less_Suc)
  have bits: "editionBits c p (Suc n) = usableBits p l @ editionBits c (Suc p) n"
    by (simp add: editionBits_Suc l)
  show ?case
  proof (cases "False \<in> set (usableBits p l)")
    case True
    then show ?thesis
      by (subst cursedBitwiseLogicLoop.simps)
         (simp add: fromAccountAddress_def fetch_page l forLoop_page bits setBitsBeforeGap_gap)
  next
    case False
    have rest: "False \<in> set (editionBits c (Suc p) n)"
      using Suc.prems(2) False by (simp add: bits)
    have pages: "\<forall>j<n. c (Suc p + j) \<noteq> None"
      using Suc.prems(1) by (metis Suc_less_eq add_Suc_shift)
    have "cursedBitwiseLogicLoop c p ts =
            cursedBitwiseLogicLoop c (Suc p) (ts + setBitsBeforeGap (usableBits p l))"
      using False by (subst cursedBitwiseLogicLoop.simps)
         (simp add: fromAccountAddress_def fetch_page l forLoop_page)
    also have "\<dots> = Some (Inr (ts + setBitsBeforeGap (usableBits p l)
                              + setBitsBeforeGap (editionBits c (Suc p) n)))"
      using Suc.IH [OF pages rest] .
    finally show ?thesis
      using False setBitsBeforeGap_full [of "usableBits p l" "[]"]
      by (simp add: bits setBitsBeforeGap_full) (simp add: setBitsBeforeGap_def)
  qed
qed

lemma low7_bits:
  fixes b :: "8 word"
  assumes "b AND 0x7F = 0x7F" and "k < 7"
  shows "bit (unat b) k"
proof -
  have "bit (b AND 0x7F) k = bit (0x7F :: 8 word) k"
    using assms(1) by simp
  moreover have "bit (0x7F :: 8 word) k"
  proof -
    have m: "(0x7F :: 8 word) = mask 7" by (simp add: mask_eq_exp_minus_1)
    show ?thesis unfolding m using assms(2) by (simp add: bit_mask_iff)
  qed
  ultimately have "bit b k" by (simp add: bit_and_iff)
  then show ?thesis by (simp add: bit_unsigned_iff)
qed

lemma example_forLoop:
  fixes b0 :: "8 word"
  assumes "b0 AND 0x7F = 0x7F"
  shows "forLoop 0 (b0 # 0xE0 # rest) 0 1 = (11, True)"
  using low7_bits [OF assms]
  by (simp add: forLoop.simps editionExists_packed indexCap_def ledger_at_def bit_Suc_0_iff)

lemma sum_indexCap: "(\<Sum>j<k. indexCap j) = (if k = 0 then 0 else 247 + 248 * (k - 1))"
  by (induction k) (auto simp add: indexCap_def)

lemma loop_full_pages:
  "(\<forall>j<k. \<exists>l. c (p + j) = Some l \<and> False \<notin> set (usableBits (p + j) l)) \<Longrightarrow>
   cursedBitwiseLogicLoop c p ts = cursedBitwiseLogicLoop c (p + k) (ts + (\<Sum>j<k. indexCap (p + j)))"
proof (induction k arbitrary: p ts)
  case 0
  then show ?case by simp
next
  case (Suc k)
  from Suc.prems obtain l where l: "c p = Some l" "False \<notin> set (usableBits p l)"
    by (metis add.right_neutral zero_less_Suc)
  have full: "setBitsBeforeGap (usableBits p l) = indexCap p"
    using l(2) setBitsBeforeGap_full [of "usableBits p l" "[]"]
    by (simp add: setBitsBeforeGap_def length_usableBits)
  have rest: "\<forall>j<k. \<exists>l. c (Suc p + j) = Some l \<and> False \<notin> set (usableBits (Suc p + j) l)"
    using Suc.prems by (metis Suc_less_eq add_Suc_shift)
  have "cursedBitwiseLogicLoop c p ts = cursedBitwiseLogicLoop c (Suc p) (ts + indexCap p)"
    using l by (subst cursedBitwiseLogicLoop.simps)
      (simp add: fromAccountAddress_def fetch_page forLoop_page full)
  also have "\<dots> = cursedBitwiseLogicLoop c (Suc p + k) (ts + indexCap p + (\<Sum>j<k. indexCap (Suc p + j)))"
    using Suc.IH [OF rest] .
  finally show ?case
    by (simp add: sum.lessThan_Suc_shift add.assoc del: sum.lessThan_Suc)
qed

lemma setBitsBeforeGap_first_gap:
  assumes "i < length xs" and "\<not> xs ! i" and "\<forall>i'<i. xs ! i'"
  shows "setBitsBeforeGap xs = i"
proof -
  have "takeWhile (\<lambda>b. b) xs = take i xs"
    using assms by (intro takeWhile_eq_take_P_nth) auto
  then show ?thesis using assms(1) by (simp add: setBitsBeforeGap_def)
qed

lemma loop_last_page:
  assumes "c k = Some l" and "False \<in> set (usableBits k l)"
  shows "cursedBitwiseLogicLoop c k ts = Some (Inr (ts + setBitsBeforeGap (usableBits k l)))"
  using assms by (subst cursedBitwiseLogicLoop.simps)
      (simp add: fromAccountAddress_def fetch_page forLoop_page)

lemma loop_break:
  "c p = Some l \<Longrightarrow> forLoop p l 0 ts = (n, True) \<Longrightarrow>
   cursedBitwiseLogicLoop c p ts = Some (Inr n)"
  by (subst cursedBitwiseLogicLoop.simps) (simp add: fromAccountAddress_def fetch_page)

lemma nth_usableBits:
  "i < indexCap m \<Longrightarrow>
   usableBits m l ! i =
     bit (ledger_at l ((if m = 0 then i + 1 else i) div 8))
         (7 - (if m = 0 then i + 1 else i) mod 8)"
  using editionExists_usableBits [of i m l] by (simp add: editionExists_packed)

lemma bit_255: "n < 8 \<Longrightarrow> bit (255::nat) n"
proof -
  have m: "(255::nat) = mask 8" by (simp add: mask_eq_exp_minus_1)
  show "n < 8 \<Longrightarrow> bit (255::nat) n" unfolding m by (simp add: bit_mask_iff)
qed

lemma full_marker: "False \<notin> set (usableBits m (replicate 31 0xFF))"
proof
  assume "False \<in> set (usableBits m (replicate 31 0xFF))"
  then obtain i where i: "i < indexCap m" "\<not> usableBits m (replicate 31 0xFF) ! i"
    by (metis in_set_conv_nth length_usableBits)
  define k where "k = (if m = 0 then i + 1 else i)"
  have "k < 248" using i(1) by (simp add: k_def indexCap_def split: if_splits)
  then have "k div 8 < 31" by simp
  then have "ledger_at (replicate 31 0xFF) (k div 8) = 255"
    by (simp add: ledger_at_def)
  then have "usableBits m (replicate 31 0xFF) ! i"
    using i(1) by (simp add: nth_usableBits k_def [symmetric] bit_255)
  then show False using i(2) by simp
qed

lemma second_marker:
  "usableBits (Suc 0) (0xC0 # replicate 30 0) ! 0"
  "usableBits (Suc 0) (0xC0 # replicate 30 0) ! Suc 0"
  "\<not> usableBits (Suc 0) (0xC0 # replicate 30 0) ! 2"
  by (simp_all add: nth_usableBits indexCap_def ledger_at_def bit_Suc_0_iff)

text \<open>
  A walk that meets no unset bit and no missing marker never returns: the loop has no
  bound of its own.
\<close>

lemma loop_returns_gap:
  assumes ret: "cursedBitwiseLogicLoop c p ts = Some y"
  shows "\<not> (\<forall>j. \<exists>l. c j = Some l \<and> False \<notin> set (usableBits j l))"
proof (rule cursedBitwiseLogicLoop.raw_induct
    [where P = "\<lambda>c p ts y. \<not> (\<forall>j. \<exists>l. c j = Some l \<and> False \<notin> set (usableBits j l))",
     OF _ ret])
  fix loop :: "chain \<Rightarrow> nat \<Rightarrow> nat \<Rightarrow> (error + nat) option"
  fix c p ts y
  assume IH: "\<And>c p ts y. loop c p ts = Some y \<Longrightarrow>
                \<not> (\<forall>j. \<exists>l. c j = Some l \<and> False \<notin> set (usableBits j l))"
    and body: "(case fromAccountAddress c (findEditionMarkerPda (p * 248)) of
                  Inl e \<Rightarrow> Some (Inl e)
                | Inr l \<Rightarrow>
                    (case forLoop p l 0 ts of
                       (n, broke) \<Rightarrow> if broke then Some (Inr n) else loop c (p + 1) n)) = Some y"
  show "\<not> (\<forall>j. \<exists>l. c j = Some l \<and> False \<notin> set (usableBits j l))"
  proof
    assume full: "\<forall>j. \<exists>l. c j = Some l \<and> False \<notin> set (usableBits j l)"
    then obtain l where l: "c p = Some l" "False \<notin> set (usableBits p l)"
      by blast
    from body l have "loop c (p + 1) (ts + setBitsBeforeGap (usableBits p l)) = Some y"
      by (simp add: fromAccountAddress_def fetch_page forLoop_page)
    then show False
      using IH full by blast
  qed
qed

lemma loop_never_returns:
  assumes "\<forall>j. \<exists>l. c j = Some l \<and> False \<notin> set (usableBits j l)"
  shows "supplyOf c = None"
proof (cases "supplyOf c")
  case None
  then show ?thesis .
next
  case (Some y)
  then show ?thesis
    using loop_returns_gap [of c 0 1 y] assms by (simp add: supplyOf_def)
qed

section \<open>The edition supply: the claims\<close>

text \<open>
  Claim C1. \<^verbatim>\<open>supplyOf\<close> walks the edition markers from marker 0 and returns 1 (the
  original) plus the number of set bits of the packed ledger that come before the first
  unset bit: whenever the markers \<open>0, ..., n - 1\<close> exist and their usable bits hold an
  unset one, the result is \<open>1 + setBitsBeforeGap\<close> of those bits. In particular, for
  every first marker whose byte 0 has its seven usable bits set and whose byte 1 is
  \<^verbatim>\<open>0b11100000\<close>, whatever the other bytes and markers are, the supply is 11.
\<close>

theorem supplyOf_counts_set_bits:
  "((\<forall>j<n. connection j \<noteq> None) \<and> False \<in> set (editionBits connection 0 n)
      \<longrightarrow> supplyOf connection = Some (Inr (1 + setBitsBeforeGap (editionBits connection 0 n))))
   \<and> (connection 0 = Some (b0 # 0xE0 # rest) \<and> b0 AND 0x7F = 0x7F
      \<longrightarrow> supplyOf connection = Some (Inr 11))"
proof (intro conjI impI)
  assume "(\<forall>j<n. connection j \<noteq> None) \<and> False \<in> set (editionBits connection 0 n)"
  then show "supplyOf connection = Some (Inr (1 + setBitsBeforeGap (editionBits connection 0 n)))"
    using loop_pages [of n connection 0 1] by (simp add: supplyOf_def)
next
  assume a: "connection 0 = Some (b0 # 0xE0 # rest) \<and> b0 AND 0x7F = 0x7F"
  then have "forLoop 0 (b0 # 0xE0 # rest) 0 1 = (11, True)"
    using example_forLoop [of b0 rest] by simp
  then show "supplyOf connection = Some (Inr 11)"
    using a loop_break [of connection 0 "b0 # 0xE0 # rest" 1 11] by (simp add: supplyOf_def)
qed

text \<open>
  The worked example as an instance: its ledger holds ten set bits before the gap, and
  the supply is 11.
\<close>

theorem supplyOf_counts_set_bits_witness:
  "False \<in> set (editionBits exampleConnection 0 (Suc 0))
   \<and> setBitsBeforeGap (editionBits exampleConnection 0 (Suc 0)) = 10
   \<and> exampleConnection 0 = Some (0x7F # 0xE0 # replicate 29 0)
   \<and> supplyOf exampleConnection = Some (Inr 11)"
proof -
  have pages: "\<forall>j<1. exampleConnection j \<noteq> None"
    by (simp add: exampleConnection_def)
  have first: "exampleConnection 0 = Some (0x7F # 0xE0 # replicate 29 0)"
    by (simp add: exampleConnection_def)
  have bits: "editionBits exampleConnection 0 (Suc 0) = usableBits 0 (0x7F # 0xE0 # replicate 29 0)"
    using editionBits_Suc [of exampleConnection 0 0]
    by (simp add: exampleConnection_def editionBits_def)
  have "forLoop 0 (0x7F # 0xE0 # replicate 29 0) 0 1 = (11, True)"
    by (rule example_forLoop) simp
  then have page: "setBitsBeforeGap (usableBits 0 (0x7F # 0xE0 # replicate 29 0)) = 10"
       "False \<in> set (usableBits 0 (0x7F # 0xE0 # replicate 29 0))"
    by (simp_all add: forLoop_page)
  have general: "supplyOf exampleConnection = Some (Inr 11)"
    using supplyOf_counts_set_bits [of 1 exampleConnection, THEN conjunct1] pages page
    by (simp add: bits)
  have example: "supplyOf exampleConnection = Some (Inr 11)"
    using supplyOf_counts_set_bits
      [of _ exampleConnection "0x7F" "replicate 29 0", THEN conjunct2] first
    by simp
  show ?thesis
    using general example first page by (simp add: bits)
qed

text \<open>
  Claim C2. The first marker exposes 247 usable bits and every later one 248, and the
  walk ends at the first unset bit, however many markers come before it: when the
  markers \<open>0, ..., k - 1\<close> exist with every usable bit set, and the first unset usable
  bit of marker \<open>k\<close> is at index \<open>i\<close>, the loop returns, and the result counts exactly
  the set bits before that bit: \<open>1 + i\<close> on the first marker, and
  \<open>1 + 247 + 248 * (k - 1) + i\<close> on a later one.
\<close>

theorem supplyOf_stops_at_first_unset_bit:
  assumes "\<forall>j<k. \<exists>l. connection j = Some l \<and> False \<notin> set (usableBits j l)"
    and "connection k = Some l"
    and "i < length (usableBits k l)"
    and "\<not> usableBits k l ! i"
    and "\<forall>i'<i. usableBits k l ! i'"
  shows "supplyOf connection = Some (Inr (1 + (if k = 0 then i else 247 + 248 * (k - 1) + i)))"
proof -
  have gap: "False \<in> set (usableBits k l)"
    using assms(3,4) by (metis nth_mem)
  have "supplyOf connection = cursedBitwiseLogicLoop connection k (1 + (\<Sum>j<k. indexCap j))"
    using loop_full_pages [of k connection 0 1] assms(1) by (simp add: supplyOf_def)
  also have "\<dots> = Some (Inr (1 + (\<Sum>j<k. indexCap j) + setBitsBeforeGap (usableBits k l)))"
    using loop_last_page [of connection k l, OF assms(2) gap] .
  finally show ?thesis
    using setBitsBeforeGap_first_gap [OF assms(3,4,5)] by (simp add: sum_indexCap)
qed

text \<open>
  An instance: a full first marker and two set bits on the second give
  \<open>1 + 247 + 2\<close>.
\<close>

theorem supplyOf_stops_at_first_unset_bit_witness:
  "supplyOf twoMarkers = Some (Inr 250)"
proof -
  have full: "\<forall>j<1. \<exists>l. twoMarkers j = Some l \<and> False \<notin> set (usableBits j l)"
    by (simp add: twoMarkers_def full_marker)
  have page: "twoMarkers 1 = Some (0xC0 # replicate 30 0)"
    by (simp add: twoMarkers_def)
  show ?thesis
    using supplyOf_stops_at_first_unset_bit [of 1 twoMarkers "0xC0 # replicate 30 0" 2, OF full page]
    by (simp add: second_marker less_2_cases_iff length_usableBits indexCap_def)
qed

section \<open>The facade: detection and guarded accessors\<close>

lemma await_async: "await (async body) = body"
  by (cases body) (simp_all add: await_def async_def)

lemma new_Erc1155_fields:
  "contractWrapper (new_Erc1155 reg cw st) = cw"
  "storage (new_Erc1155 reg cw st) = st"
  "query (new_Erc1155 reg cw st) = detectErc1155Enumerable reg cw"
  "mintable (new_Erc1155 reg cw st) = detectErc1155Mintable reg cw"
  "burnable (new_Erc1155 reg cw st) = detectErc1155Burnable reg cw"
  "lazyMintable (new_Erc1155 reg cw st) = detectErc1155LazyMintable reg cw"
  "signatureMintable (new_Erc1155 reg cw st) = detectErc1155SignatureMintable reg cw"
  by (simp_all add: new_Erc1155_def)

lemma detectContractFeature_covers:
  "detectContractFeature reg cw featureName = (set (required (reg featureName)) \<subseteq> set (abi cw))"
  by (simp add: detectContractFeature_def supports_def)

lemma containsNone_uncovered:
  assumes "containsNone D R"
  shows "\<not> set (required R) \<subseteq> set D"
proof
  assume covered: "set (required R) \<subseteq> set D"
  from assms obtain s where "s \<in> set (required R)"
    by (cases "required R") (auto simp add: containsNone_def)
  moreover from assms have "\<forall>s\<in>set (required R). s \<notin> set D"
    by (simp add: containsNone_def list_all_iff)
  ultimately show False using covered by blast
qed

lemma containsNone_undetected:
  "containsNone (abi cw) (reg featureName) \<Longrightarrow> \<not> detectContractFeature reg cw featureName"
  by (simp add: detectContractFeature_covers containsNone_uncovered)

lemma guard_absent:
  "async (andThen (assertEnabled None feature) k) =
     Rejects (ExtensionNotImplemented (capability feature) (family feature))"
  by (simp add: assertEnabled_def andThen_def async_def ExtensionNotImplementedError_def)

lemma guard_present:
  "async (andThen (assertEnabled (Some h) feature) k) = async (k h)"
  by (simp add: assertEnabled_def andThen_def)

lemma async_invoke: "async (invoke c method args) = Resolves (Dispatch c method args)"
  by (simp add: invoke_def async_def)

lemmas features =
  FEATURE_EDITION_ENUMERABLE_def FEATURE_EDITION_MINTABLE_def
  FEATURE_EDITION_BATCH_MINTABLE_def FEATURE_EDITION_BURNABLE_def
  FEATURE_EDITION_LAZY_MINTABLE_def FEATURE_EDITION_CLAIMABLE_def
  FEATURE_EDITION_CLAIMABLE_WITH_CONDITIONS_def FEATURE_EDITION_SIGNATURE_MINTABLE_def
  FEATURE_EDITION_REVEALABLE_def

lemma enumerable_absent:
  assumes "query this = None"
  shows "getAll this q = Rejects (ExtensionNotImplemented Enumerable ERC1155)"
    and "totalCount this = Rejects (ExtensionNotImplemented Enumerable ERC1155)"
    and "totalCirculatingSupply this t = Rejects (ExtensionNotImplemented Enumerable ERC1155)"
    and "getOwned this w = Rejects (ExtensionNotImplemented Enumerable ERC1155)"
  using assms
  by (simp_all add: getAll_def totalCount_def totalCirculatingSupply_def getOwned_def
      guard_absent features)

lemma mintable_absent:
  assumes "mintable this = None"
  shows "mintTo this r md = Rejects (ExtensionNotImplemented Mintable ERC1155)"
    and "mintAdditionalSupply this t a = Rejects (ExtensionNotImplemented Mintable ERC1155)"
    and "mintAdditionalSupplyTo this r t a = Rejects (ExtensionNotImplemented Mintable ERC1155)"
    and "mintBatchTo this r md = Rejects (ExtensionNotImplemented BatchMintable ERC1155)"
  using assms
  by (simp_all add: mintTo_def mintAdditionalSupply_def mintAdditionalSupplyTo_def
      mintBatchTo_def mintable_batch_def guard_absent features)

lemma burnable_absent:
  assumes "burnable this = None"
  shows "burn this t a = Rejects (ExtensionNotImplemented Burnable ERC1155)"
    and "burnFrom this acc t a = Rejects (ExtensionNotImplemented Burnable ERC1155)"
    and "burnBatch this ts as = Rejects (ExtensionNotImplemented Burnable ERC1155)"
    and "burnBatchFrom this acc ts as = Rejects (ExtensionNotImplemented Burnable ERC1155)"
  using assms
  by (simp_all add: burn_def burnFrom_def burnBatch_def burnBatchFrom_def guard_absent features)

lemma burnable_present:
  assumes "burnable this = Some h"
  shows "burn this t a = Resolves (Dispatch Burnable ''tokens'' [t, a])"
    and "burnFrom this acc t a = Resolves (Dispatch Burnable ''from'' [acc, t, a])"
    and "burnBatch this ts as = Resolves (Dispatch Burnable ''batch'' [ts, as])"
    and "burnBatchFrom this acc ts as = Resolves (Dispatch Burnable ''batchFrom'' [acc, ts, as])"
  using assms
  by (simp_all add: burn_def burnFrom_def burnBatch_def burnBatchFrom_def guard_present
      async_invoke)

lemma lazyMintable_absent:
  assumes "lazyMintable this = None"
  shows "lazyMint this ms opts = Rejects (ExtensionNotImplemented LazyMintable ERC1155)"
    and "getClaimTransaction this d t n opts = Rejects (ExtensionNotImplemented Claimable ERC1155)"
    and "claimTo this d t n opts = Rejects (ExtensionNotImplemented Claimable ERC1155)"
    and "claimConditions this = Throws (ExtensionNotImplemented ClaimableWithConditions ERC1155)"
    and "Erc1155_revealer this = Throws (ExtensionNotImplemented Revealable ERC1155)"
  using assms
  by (simp_all add: lazyMint_def getClaimTransaction_def claimTo_def claimConditions_def
      Erc1155_revealer_def lazyMintable_claimWithConditions_def lazyMintable_claim_def
      lazyMintable_revealer_def guard_absent features assertEnabled_def andThen_def
      async_def sync_def ExtensionNotImplementedError_def)

lemma signatureMintable_absent:
  assumes "signatureMintable this = None"
  shows "signature this = Throws (ExtensionNotImplemented SignatureMintable ERC1155)"
  using assms
  by (simp add: signature_def assertEnabled_def sync_def ExtensionNotImplementedError_def
      features)

lemma signer_first:
  assumes "getSignerAddress (contractWrapper this) = Inr s"
  shows "mint this md = mintTo this s md"
    and "mintBatch this md = mintBatchTo this s md"
    and "Erc1155_claim this t n opts = claimTo this s t n opts"
  using assms
  by (simp_all add: mint_def mintBatch_def Erc1155_claim_def andThen_def mintTo_def
      mintBatchTo_def claimTo_def await_async)

lemma signer_missing:
  assumes "getSignerAddress (contractWrapper this) = Inl e"
  shows "mint this md = Rejects e"
    and "mintBatch this md = Rejects e"
    and "Erc1155_claim this t n opts = Rejects e"
  using assms
  by (simp_all add: mint_def mintBatch_def Erc1155_claim_def andThen_def async_def)

lemma batch_absent:
  assumes "mintable_batch this = None"
  shows "mintBatchTo this r md = Rejects (ExtensionNotImplemented BatchMintable ERC1155)"
  using assms by (simp add: mintBatchTo_def guard_absent features)

lemma conditions_absent:
  assumes "lazyMintable_claimWithConditions this = None"
  shows "claimConditions this = Throws (ExtensionNotImplemented ClaimableWithConditions ERC1155)"
  using assms
  by (simp add: claimConditions_def assertEnabled_def andThen_def sync_def
      ExtensionNotImplementedError_def features)

lemma conditions_present:
  assumes "lazyMintable_claimWithConditions this = Some c"
  shows "claimConditions this = Returns (conditions c)"
    and "getClaimTransaction this d t n opts
           = Resolves (Dispatch ClaimableWithConditions ''getClaimTransaction'' [d, t, n, opts])"
    and "claimTo this d t n opts = Resolves (Dispatch ClaimableWithConditions ''to'' [d, t, n, opts])"
  using assms
  by (simp_all add: claimConditions_def getClaimTransaction_def claimTo_def assertEnabled_def
      andThen_def sync_def async_invoke)

lemma claim_absent:
  assumes "lazyMintable_claimWithConditions this = None" and "lazyMintable_claim this = None"
  shows "getClaimTransaction this d t n opts = Rejects (ExtensionNotImplemented Claimable ERC1155)"
    and "claimTo this d t n opts = Rejects (ExtensionNotImplemented Claimable ERC1155)"
  using assms
  by (simp_all add: getClaimTransaction_def claimTo_def async_def
      ExtensionNotImplementedError_def features)

lemma revealer_absent:
  assumes "lazyMintable_revealer this = None"
  shows "Erc1155_revealer this = Throws (ExtensionNotImplemented Revealable ERC1155)"
  using assms
  by (simp add: Erc1155_revealer_def assertEnabled_def sync_def
      ExtensionNotImplementedError_def features)

lemma burnOnly_facts:
  "containsNone (abi burnOnlyWrapper) (exampleRegistry ''ERC1155Enumerable'')"
  "containsNone (abi burnOnlyWrapper) (exampleRegistry ''ERC1155Mintable'')"
  "containsNone (abi burnOnlyWrapper) (exampleRegistry ''ERC1155LazyMintable'')"
  "containsNone (abi burnOnlyWrapper) (exampleRegistry ''ERC1155SignatureMintable'')"
  "set (required (exampleRegistry ''ERC1155Burnable'')) \<subseteq> set (abi burnOnlyWrapper)"
  "getSignerAddress burnOnlyWrapper = Inr ''0xsigner''"
  by (simp_all add: containsNone_def exampleRegistry_def requirement_def burnOnlyWrapper_def
      coreSelectors_def)

lemma batchOnly_facts:
  "set (required (exampleRegistry ''ERC1155BatchMintable'')) \<subseteq> set (abi batchOnlyWrapper)"
  "\<not> set (required (exampleRegistry ''ERC1155Mintable'')) \<subseteq> set (abi batchOnlyWrapper)"
  "detectContractFeature exampleRegistry batchOnlyWrapper ''ERC1155BatchMintable''"
  "containsNone (abi batchOnlyWrapper) (exampleRegistry ''ERC1155Burnable'')"
  "getSignerAddress batchOnlyWrapper = Inr ''0xsigner''"
  by (simp_all add: exampleRegistry_def requirement_def batchOnlyWrapper_def containsNone_def
      burnOnlyWrapper_def coreSelectors_def detectContractFeature_covers)

lemma minting_facade:
  "mintable (new_Erc1155 exampleRegistry mintingWrapper exampleStorage)
     = Some \<lparr>batch = Some Erc1155BatchMintable\<rparr>"
  "mintable_batch (new_Erc1155 exampleRegistry mintingWrapper exampleStorage)
     = Some Erc1155BatchMintable"
  by (simp_all add: new_Erc1155_fields detectErc1155Mintable_def new_Erc1155Mintable_def
      mintable_batch_def detectContractFeature_covers exampleRegistry_def requirement_def
      mintingWrapper_def burnOnlyWrapper_def coreSelectors_def)

lemma enumerable_present:
  "query this = Some h \<Longrightarrow> getAll this q = Resolves (Dispatch Enumerable ''all'' [q])"
  by (simp add: getAll_def guard_present async_invoke)

lemma mintable_present:
  "mintable this = Some h \<Longrightarrow> mintTo this r md = Resolves (Dispatch Mintable ''to'' [r, md])"
  by (simp add: mintTo_def guard_present async_invoke)

lemma lazyMintable_present:
  "lazyMintable this = Some h \<Longrightarrow>
   lazyMint this ms opts = Resolves (Dispatch LazyMintable ''lazyMint'' [ms, opts])"
  by (simp add: lazyMint_def guard_present async_invoke)

lemma signatureMintable_present:
  "signatureMintable this = Some h \<Longrightarrow> signature this = Returns h"
  by (simp add: signature_def assertEnabled_def sync_def)

lemma getAll_raises_iff:
  "(getAll this q = Rejects (ExtensionNotImplemented Enumerable ERC1155)) = (query this = None)"
  by (cases "query this") (simp_all add: enumerable_absent enumerable_present)

lemma mintTo_raises_iff:
  "(mintTo this r md = Rejects (ExtensionNotImplemented Mintable ERC1155)) = (mintable this = None)"
  by (cases "mintable this") (simp_all add: mintable_absent mintable_present)

lemma burn_raises_iff:
  "(burn this t a = Rejects (ExtensionNotImplemented Burnable ERC1155)) = (burnable this = None)"
  by (cases "burnable this") (simp_all add: burnable_absent burnable_present)

lemma lazyMint_raises_iff:
  "(lazyMint this ms opts = Rejects (ExtensionNotImplemented LazyMintable ERC1155))
     = (lazyMintable this = None)"
  by (cases "lazyMintable this") (simp_all add: lazyMintable_absent lazyMintable_present)

lemma signature_raises_iff:
  "(signature this = Throws (ExtensionNotImplemented SignatureMintable ERC1155))
     = (signatureMintable this = None)"
  by (cases "signatureMintable this")
     (simp_all add: signatureMintable_absent signatureMintable_present)

lemma burnOnly_facade:
  "query (new_Erc1155 exampleRegistry burnOnlyWrapper exampleStorage) = None"
  "mintable (new_Erc1155 exampleRegistry burnOnlyWrapper exampleStorage) = None"
  "burnable (new_Erc1155 exampleRegistry burnOnlyWrapper exampleStorage) = Some Erc1155Burnable"
  "lazyMintable (new_Erc1155 exampleRegistry burnOnlyWrapper exampleStorage) = None"
  "signatureMintable (new_Erc1155 exampleRegistry burnOnlyWrapper exampleStorage) = None"
  by (simp_all add: new_Erc1155_fields detectErc1155Enumerable_def detectErc1155Mintable_def
      detectErc1155Burnable_def detectErc1155LazyMintable_def
      detectErc1155SignatureMintable_def detectContractFeature_covers exampleRegistry_def
      requirement_def burnOnlyWrapper_def coreSelectors_def)

lemma readOnly_facade:
  "query (new_Erc1155 exampleRegistry readOnlyWrapper exampleStorage) = None"
  "mintable (new_Erc1155 exampleRegistry readOnlyWrapper exampleStorage) = None"
  "burnable (new_Erc1155 exampleRegistry readOnlyWrapper exampleStorage) = None"
  "lazyMintable (new_Erc1155 exampleRegistry readOnlyWrapper exampleStorage) = None"
  "signatureMintable (new_Erc1155 exampleRegistry readOnlyWrapper exampleStorage) = None"
  "getSignerAddress (contractWrapper (new_Erc1155 exampleRegistry readOnlyWrapper exampleStorage))
     = Inl (CallFailed ''no signer'')"
  by (simp_all add: new_Erc1155_fields detectErc1155Enumerable_def detectErc1155Mintable_def
      detectErc1155Burnable_def detectErc1155LazyMintable_def
      detectErc1155SignatureMintable_def detectContractFeature_covers exampleRegistry_def
      requirement_def readOnlyWrapper_def burnOnlyWrapper_def coreSelectors_def)

lemma readOnly_subhandles:
  "mintable_batch (new_Erc1155 exampleRegistry readOnlyWrapper exampleStorage) = None"
  "lazyMintable_claimWithConditions (new_Erc1155 exampleRegistry readOnlyWrapper exampleStorage)
     = None"
  "lazyMintable_claim (new_Erc1155 exampleRegistry readOnlyWrapper exampleStorage) = None"
  "lazyMintable_revealer (new_Erc1155 exampleRegistry readOnlyWrapper exampleStorage) = None"
  by (simp_all add: mintable_batch_def lazyMintable_claimWithConditions_def
      lazyMintable_claim_def lazyMintable_revealer_def readOnly_facade)

lemma lazyOnly_facade:
  "lazyMintable (new_Erc1155 exampleRegistry lazyOnlyWrapper exampleStorage)
     = Some \<lparr>claimWithConditions = None, claim = None, revealer = None\<rparr>"
  "lazyMintable_claimWithConditions (new_Erc1155 exampleRegistry lazyOnlyWrapper exampleStorage)
     = None"
  "lazyMintable_claim (new_Erc1155 exampleRegistry lazyOnlyWrapper exampleStorage) = None"
  "lazyMintable_revealer (new_Erc1155 exampleRegistry lazyOnlyWrapper exampleStorage) = None"
  by (simp_all add: new_Erc1155_fields detectErc1155LazyMintable_def
      new_Erc1155LazyMintable_def lazyMintable_claimWithConditions_def lazyMintable_claim_def
      lazyMintable_revealer_def detectContractFeature_covers exampleRegistry_def
      requirement_def lazyOnlyWrapper_def burnOnlyWrapper_def coreSelectors_def)

lemma undetected_subhandles:
  "\<not> detectContractFeature reg cw ''ERC1155BatchMintable''
     \<Longrightarrow> mintable_batch (new_Erc1155 reg cw st) = None"
  "\<not> detectContractFeature reg cw ''ERC1155ClaimableWithConditions''
     \<Longrightarrow> lazyMintable_claimWithConditions (new_Erc1155 reg cw st) = None"
  "\<not> detectContractFeature reg cw ''ERC1155Claimable''
     \<Longrightarrow> lazyMintable_claim (new_Erc1155 reg cw st) = None"
  "\<not> detectContractFeature reg cw ''ERC1155Revealable''
     \<Longrightarrow> lazyMintable_revealer (new_Erc1155 reg cw st) = None"
  by (simp_all add: new_Erc1155_fields mintable_batch_def lazyMintable_claimWithConditions_def
      lazyMintable_claim_def lazyMintable_revealer_def detectErc1155Mintable_def
      detectErc1155LazyMintable_def new_Erc1155Mintable_def new_Erc1155LazyMintable_def)

lemma burnOnly_subcapabilities:
  "containsNone (abi burnOnlyWrapper) (exampleRegistry ''ERC1155BatchMintable'')"
  "containsNone (abi burnOnlyWrapper) (exampleRegistry ''ERC1155Claimable'')"
  "containsNone (abi burnOnlyWrapper) (exampleRegistry ''ERC1155ClaimableWithConditions'')"
  "containsNone (abi burnOnlyWrapper) (exampleRegistry ''ERC1155Revealable'')"
  by (simp_all add: containsNone_def exampleRegistry_def requirement_def burnOnlyWrapper_def
      coreSelectors_def)

lemma burnOnly_conditions:
  "lazyMintable_claimWithConditions (new_Erc1155 exampleRegistry burnOnlyWrapper exampleStorage)
     = None"
  by (simp add: lazyMintable_claimWithConditions_def burnOnly_facade)

lemma conditions_facade:
  "containsNone (abi conditionsWrapper) (conditionsRegistry ''ERC1155Claimable'')"
  "lazyMintable_claimWithConditions
     (new_Erc1155 conditionsRegistry conditionsWrapper exampleStorage)
     = Some \<lparr>conditions = DropErc1155ClaimConditions\<rparr>"
  "lazyMintable_claim (new_Erc1155 conditionsRegistry conditionsWrapper exampleStorage) = None"
  by (simp_all add: containsNone_def conditionsRegistry_def exampleRegistry_def requirement_def
      conditionsWrapper_def burnOnlyWrapper_def coreSelectors_def new_Erc1155_fields
      detectErc1155LazyMintable_def new_Erc1155LazyMintable_def
      lazyMintable_claimWithConditions_def lazyMintable_claim_def
      detectContractFeature_covers)

lemma readOnly_facts:
  "containsNone (abi readOnlyWrapper) (exampleRegistry ''ERC1155Mintable'')"
  "getSignerAddress readOnlyWrapper = Inl (CallFailed ''no signer'')"
  by (simp_all add: containsNone_def exampleRegistry_def requirement_def readOnlyWrapper_def
      burnOnlyWrapper_def coreSelectors_def)

lemma andThen_Inr: "(andThen r k = Inr v) = (\<exists>x. r = Inr x \<and> k x = Inr v)"
  by (cases r) (simp_all add: andThen_def)

lemma andThen_Inl: "(andThen r k = Inl e) = (r = Inl e \<or> (\<exists>x. r = Inr x \<and> k x = Inl e))"
  by (cases r) (simp_all add: andThen_def)

lemma detectWith_Inr:
  "(detectWith detect cw n construct = Inr h) =
     (detect cw n = Inr (h \<noteq> None) \<and> (\<forall>v. h = Some v \<longrightarrow> construct = Inr v))"
  by (cases "detect cw n"; cases construct; cases h)
     (auto simp add: detectWith_def andThen_def)

lemma detectWith_Inl:
  "(detectWith detect cw n construct = Inl e) =
     (detect cw n = Inl e \<or> (detect cw n = Inr True \<and> construct = Inl e))"
  by (cases "detect cw n"; cases construct) (auto simp add: detectWith_def andThen_def)

lemma constructed_fields:
  assumes "Erc1155_constructor detect cw st = Inr f"
  shows "contractWrapper f = cw" and "storage f = st"
    and "detect cw ''ERC1155Enumerable'' = Inr (query f \<noteq> None)"
    and "detect cw ''ERC1155Mintable'' = Inr (mintable f \<noteq> None)"
    and "detect cw ''ERC1155Burnable'' = Inr (burnable f \<noteq> None)"
    and "detect cw ''ERC1155LazyMintable'' = Inr (lazyMintable f \<noteq> None)"
    and "detect cw ''ERC1155SignatureMintable'' = Inr (signatureMintable f \<noteq> None)"
  using assms
  by (auto simp add: Erc1155_constructor_def andThen_Inr detectWith_Inr)

lemma subhandle_failure:
  "new_Erc1155Mintable_with detect cw = Inl e \<Longrightarrow> \<exists>n. detect cw n = Inl e"
  "new_Erc1155LazyMintable_with detect cw = Inl e \<Longrightarrow> \<exists>n. detect cw n = Inl e"
  by (auto simp add: new_Erc1155Mintable_with_def new_Erc1155LazyMintable_with_def
      andThen_Inl detectWith_Inl)

lemma constructor_failure:
  assumes "Erc1155_constructor detect cw st = Inl e"
  shows "\<exists>n. detect cw n = Inl e"
  using assms subhandle_failure [of detect cw e]
  by (auto simp add: Erc1155_constructor_def andThen_Inl detectWith_Inl)

lemma answered_no_failure:
  fixes detect :: probe
  assumes "\<forall>n. \<exists>b. detect cw n = Inr b" and "\<exists>n. detect cw n = Inl e"
  shows False
proof -
  from assms(2) obtain n where failed: "detect cw n = Inl e" ..
  from assms(1) obtain b :: bool where "detect cw n = Inr b" by blast
  with failed show False by simp
qed

lemma constructor_total:
  assumes "\<forall>n. \<exists>b. detect cw n = Inr b"
  shows "\<exists>f. Erc1155_constructor detect cw st = Inr f"
proof (cases "Erc1155_constructor detect cw st")
  case (Inl e)
  then have "\<exists>n. detect cw n = Inl e" by (rule constructor_failure)
  with assms have False by (rule answered_no_failure)
  then show ?thesis ..
next
  case (Inr f)
  then show ?thesis by simp
qed

lemma constructor_propagates:
  assumes "n \<in> set facadeFeatures" and "detect cw n = Inl e"
  shows "\<exists>e'. Erc1155_constructor detect cw st = Inl e'"
proof (cases "Erc1155_constructor detect cw st")
  case (Inl e')
  then show ?thesis by simp
next
  case (Inr f)
  then show ?thesis
    using assms constructed_fields(3-7) [OF Inr] by (auto simp add: facadeFeatures_def)
qed

lemma constructor_specProbe:
  "Erc1155_constructor (specProbe reg) cw st = Inr (new_Erc1155 reg cw st)"
  by (simp add: Erc1155_constructor_def detectWith_def specProbe_def andThen_def
      new_Erc1155_def detectErc1155Enumerable_def detectErc1155Mintable_def
      detectErc1155Burnable_def detectErc1155LazyMintable_def
      detectErc1155SignatureMintable_def new_Erc1155Mintable_def new_Erc1155LazyMintable_def
      new_Erc1155Mintable_with_def new_Erc1155LazyMintable_with_def)

lemma signerProbe_constructions:
  "Erc1155_constructor signerProbe burnOnlyWrapper exampleStorage
     = Inr (everyHandle burnOnlyWrapper exampleStorage)"
  "Erc1155_constructor signerProbe (switchSigner burnOnlyWrapper ''0xother'') exampleStorage
     = Inr (noHandle (switchSigner burnOnlyWrapper ''0xother'') exampleStorage)"
  by (simp_all add: Erc1155_constructor_def detectWith_def signerProbe_def andThen_def
      new_Erc1155Mintable_with_def new_Erc1155LazyMintable_with_def everyHandle_def
      noHandle_def switchSigner_def burnOnlyWrapper_def)

lemma failingProbe_construction:
  "Erc1155_constructor failingProbe burnOnlyWrapper exampleStorage = Inl (CallFailed ''probe'')"
  by (simp add: Erc1155_constructor_def detectWith_def failingProbe_def andThen_def)

section \<open>SignatureDrop and get: the claims\<close>

text \<open>
  Claim C9. For the SignatureDrop contract, at one state of the chain where
  \<^verbatim>\<open>totalMinted\<close> returns \<open>m\<close> and \<^verbatim>\<open>nextTokenIdToMint\<close> returns \<open>n\<close> with
  \<open>m \<le> n\<close>: the claimed supply is \<open>m\<close>, the unclaimed supply is \<open>n - m\<close>, and
  \<^verbatim>\<open>totalSupply()\<close> is their sum, which is \<open>n\<close>, the value of
  \<^verbatim>\<open>nextTokenIdToMint\<close>.
\<close>

theorem SignatureDrop_totalSupply_is_nextTokenIdToMint:
  assumes "totalMinted readContract = Inr m"
    and "nextTokenIdToMint readContract = Inr n"
    and "m \<le> n"
  shows "totalClaimedSupply readContract = Resolves m
       \<and> totalUnclaimedSupply readContract = Resolves (n - m)
       \<and> SignatureDrop_totalSupply readContract = Resolves (m + (n - m))
       \<and> SignatureDrop_totalSupply readContract = Resolves n"
proof -
  have claimed: "totalClaimedSupply readContract = Resolves m"
    using assms(1) by (simp add: totalClaimedSupply_def async_def)
  have unclaimed: "totalUnclaimedSupply readContract = Resolves (n - m)"
    using assms(2) claimed by (simp add: totalUnclaimedSupply_def andThen_def await_def async_def)
  have total: "SignatureDrop_totalSupply readContract = Resolves (m + (n - m))"
    using claimed unclaimed
    by (simp add: SignatureDrop_totalSupply_def andThen_def await_def async_def)
  show ?thesis
    using claimed unclaimed total by simp
qed

text \<open>An instance: 3 claimed of 10 gives a total supply of 10.\<close>

theorem SignatureDrop_totalSupply_is_nextTokenIdToMint_witness:
  "SignatureDrop_totalSupply exampleDrop = Resolves 10"
  using SignatureDrop_totalSupply_is_nextTokenIdToMint [of exampleDrop 3 10]
  by (simp add: exampleDrop_def)

lemma get_without_totalSupply:
  "''totalSupply'' \<notin> set (abi (contractWrapper this))
   \<Longrightarrow> get this t = Rejects (TypeError ''totalSupply'')"
  by (simp add: get_def call_readContract_def andThen_def async_def)

lemma get_cases:
  "''totalSupply'' \<in> set (abi (contractWrapper this)) \<Longrightarrow>
   get this t =
     (case await (getTokenMetadata this t) of
        Inl e \<Rightarrow> Rejects e
      | Inr md \<Rightarrow>
          (let s = (case readContract_totalSupply (contractWrapper this) t of
                      Inl e \<Rightarrow> 0 | Inr v \<Rightarrow> v)
           in if \<bar>s\<bar> < 2 ^ 53
              then Resolves \<lparr>owner = AddressZero, metadata = md, nft_type = ''ERC1155'', nft_supply = s\<rparr>
              else Rejects NumericOverflow))"
  by (auto simp add: get_def call_readContract_def Promise_all_def catch_def andThen_def
      toNumber_def async_def Let_def split: sum.splits)

lemma await_Inl_async: "(await (async body) = Inl e) = (async body = Rejects e)"
  by (cases body) (simp_all add: await_def async_def)

lemma await_getTokenMetadata:
  "(await (getTokenMetadata this t) = Inl e) = (getTokenMetadata this t = Rejects e)"
  unfolding getTokenMetadata_def by (rule await_Inl_async)

text \<open>
  Claim C10, amended. On a contract whose ABI declares \<^verbatim>\<open>totalSupply\<close>,
  \<^verbatim>\<open>Erc1155.get(tokenId)\<close> does not fail because the \<^verbatim>\<open>totalSupply\<close> read
  rejects: the rejection is caught and the NFT reports supply 0. Every NFT it returns
  has the zero address as owner and the type \<^verbatim>\<open>"ERC1155"\<close>. There it fails only if
  the metadata cannot be fetched, or if the supply the contract reports does not fit
  a JavaScript number (\<open>2 ^ 53\<close> or more), where \<^verbatim>\<open>supply.toNumber()\<close> raises
  an overflow.
\<close>

theorem get_survives_totalSupply_failure:
  assumes "''totalSupply'' \<in> set (abi (contractWrapper this))"
  shows
   "(get this t = Resolves nft \<longrightarrow> owner nft = AddressZero \<and> nft_type nft = ''ERC1155'')
   \<and> (readContract_totalSupply (contractWrapper this) t = Inl e
        \<and> getTokenMetadata this t = Resolves md
      \<longrightarrow> get this t =
            Resolves \<lparr>owner = AddressZero, metadata = md, nft_type = ''ERC1155'', nft_supply = 0\<rparr>)
   \<and> (get this t = Rejects e'
      \<longrightarrow> getTokenMetadata this t = Rejects e'
          \<or> (e' = NumericOverflow
              \<and> (\<exists>s. readContract_totalSupply (contractWrapper this) t = Inr s \<and> 2 ^ 53 \<le> \<bar>s\<bar>)))"
proof -
  note cases = get_cases [OF assms, of t]
  have returned: "get this t = Resolves nft \<longrightarrow> owner nft = AddressZero \<and> nft_type nft = ''ERC1155''"
    by (auto simp add: cases Let_def split: sum.splits if_splits)
  have caught: "readContract_totalSupply (contractWrapper this) t = Inl e
        \<and> getTokenMetadata this t = Resolves md
      \<longrightarrow> get this t =
            Resolves \<lparr>owner = AddressZero, metadata = md, nft_type = ''ERC1155'', nft_supply = 0\<rparr>"
    by (simp add: cases await_def)
  have failed: "get this t = Rejects e'
      \<longrightarrow> getTokenMetadata this t = Rejects e'
          \<or> (e' = NumericOverflow
              \<and> (\<exists>s. readContract_totalSupply (contractWrapper this) t = Inr s \<and> 2 ^ 53 \<le> \<bar>s\<bar>))"
    by (auto simp add: cases await_getTokenMetadata Let_def split: sum.splits if_splits)
  show ?thesis
    using returned caught failed by blast
qed

text \<open>
  Instances: the read of the total supply rejects and the NFT reports 0; the read of
  the URI rejects and \<^verbatim>\<open>get\<close> rejects with that failure.
\<close>

theorem get_survives_totalSupply_failure_witness:
  "''totalSupply'' \<in> set (abi supplyWrapper)
   \<and> get (new_Erc1155 exampleRegistry supplyWrapper exampleStorage) 0
     = Resolves \<lparr>owner = AddressZero, metadata = ''{name: token}'',
                 nft_type = ''ERC1155'', nft_supply = 0\<rparr>
   \<and> get (new_Erc1155 exampleRegistry noMetadataWrapper exampleStorage) 0
     = Rejects (CallFailed ''uri'')
   \<and> getTokenMetadata (new_Erc1155 exampleRegistry noMetadataWrapper exampleStorage) 0
     = Rejects (CallFailed ''uri'')"
proof -
  have declared: "''totalSupply'' \<in> set (abi supplyWrapper)"
    by (simp add: supplyWrapper_def)
  have declared1:
    "''totalSupply''
       \<in> set (abi (contractWrapper (new_Erc1155 exampleRegistry supplyWrapper exampleStorage)))"
    by (simp add: new_Erc1155_fields supplyWrapper_def)
  have declared2:
    "''totalSupply''
       \<in> set (abi (contractWrapper (new_Erc1155 exampleRegistry noMetadataWrapper exampleStorage)))"
    by (simp add: new_Erc1155_fields noMetadataWrapper_def supplyWrapper_def)
  have rejects: "readContract_totalSupply
        (contractWrapper (new_Erc1155 exampleRegistry supplyWrapper exampleStorage)) 0
      = Inl (CallFailed ''totalSupply'')"
    by (simp add: new_Erc1155_fields supplyWrapper_def burnOnlyWrapper_def)
  have md: "getTokenMetadata (new_Erc1155 exampleRegistry supplyWrapper exampleStorage) 0
      = Resolves ''{name: token}''"
    by (simp add: getTokenMetadata_def new_Erc1155_fields supplyWrapper_def burnOnlyWrapper_def
        coreSelectors_def exampleStorage_def call_readContract_def andThen_def async_def)
  have caught: "get (new_Erc1155 exampleRegistry supplyWrapper exampleStorage) 0
     = Resolves \<lparr>owner = AddressZero, metadata = ''{name: token}'',
                 nft_type = ''ERC1155'', nft_supply = 0\<rparr>"
    using get_survives_totalSupply_failure
      [OF declared1, where t = 0
         and e = "CallFailed ''totalSupply''" and md = "''{name: token}''"]
      rejects md
    by simp
  have nomd: "getTokenMetadata (new_Erc1155 exampleRegistry noMetadataWrapper exampleStorage) 0
      = Rejects (CallFailed ''uri'')"
    by (simp add: getTokenMetadata_def new_Erc1155_fields noMetadataWrapper_def
        supplyWrapper_def burnOnlyWrapper_def coreSelectors_def call_readContract_def
        andThen_def async_def)
  have failed: "get (new_Erc1155 exampleRegistry noMetadataWrapper exampleStorage) 0
     = Rejects (CallFailed ''uri'')"
    by (simp add: get_cases [OF declared2] nomd await_def)
  have "getTokenMetadata (new_Erc1155 exampleRegistry noMetadataWrapper exampleStorage) 0
     = Rejects (CallFailed ''uri'')"
    using get_survives_totalSupply_failure
      [OF declared2, where t = 0 and e' = "CallFailed ''uri''"]
      failed
    by simp
  then show ?thesis
    using declared caught failed by simp
qed

text \<open>
  Claim C10 as stated fails: for a token whose total supply is \<open>2 ^ 53\<close>, on a
  contract whose ABI declares \<^verbatim>\<open>totalSupply\<close> and \<^verbatim>\<open>uri\<close>, the metadata is
  fetched, and \<^verbatim>\<open>get\<close> rejects with the overflow of \<^verbatim>\<open>toNumber\<close>.
\<close>

theorem get_fails_on_huge_supply:
  "''totalSupply'' \<in> set (abi hugeSupplyWrapper)
   \<and> getTokenMetadata (new_Erc1155 exampleRegistry hugeSupplyWrapper exampleStorage) 0
     = Resolves ''{name: token}''
   \<and> readContract_totalSupply
        (contractWrapper (new_Erc1155 exampleRegistry hugeSupplyWrapper exampleStorage)) 0
     = Inr (2 ^ 53)
   \<and> get (new_Erc1155 exampleRegistry hugeSupplyWrapper exampleStorage) 0
     = Rejects NumericOverflow"
proof -
  have declared:
    "''totalSupply''
       \<in> set (abi (contractWrapper (new_Erc1155 exampleRegistry hugeSupplyWrapper exampleStorage)))"
    by (simp add: new_Erc1155_fields hugeSupplyWrapper_def supplyWrapper_def)
  have md: "getTokenMetadata (new_Erc1155 exampleRegistry hugeSupplyWrapper exampleStorage) 0
      = Resolves ''{name: token}''"
    by (simp add: getTokenMetadata_def new_Erc1155_fields hugeSupplyWrapper_def
        supplyWrapper_def burnOnlyWrapper_def coreSelectors_def exampleStorage_def
        call_readContract_def andThen_def async_def)
  have huge: "readContract_totalSupply
        (contractWrapper (new_Erc1155 exampleRegistry hugeSupplyWrapper exampleStorage)) 0
      = Inr (2 ^ 53)"
    by (simp add: new_Erc1155_fields hugeSupplyWrapper_def)
  have overflow: "get (new_Erc1155 exampleRegistry hugeSupplyWrapper exampleStorage) 0
      = Rejects NumericOverflow"
    by (simp add: get_cases [OF declared] md huge await_def)
  have "''totalSupply'' \<in> set (abi hugeSupplyWrapper)"
    by (simp add: hugeSupplyWrapper_def supplyWrapper_def)
  then show ?thesis
    using md huge overflow by simp
qed

section \<open>The facade: the claims\<close>

text \<open>
  Claim C3, amended. For a facade built over a contract whose descriptor holds none of
  the selectors a capability requires, the handle of the capability is absent: the
  field of the facade for Enumerable, Mintable, Burnable, LazyMintable and
  SignatureMintable; the field of the mint handle for BatchMintable; the field of the
  lazy-mint handle for Claimable, ClaimableWithConditions and Revealable. Every method
  whose body applies the guard to that handle fails with
  \<^verbatim>\<open>ExtensionNotImplemented\<close> naming that capability and the ERC1155 family, an
  async method by rejecting its promise and a getter by throwing. There are two
  exceptions. \<^verbatim>\<open>mint\<close>, \<^verbatim>\<open>mintBatch\<close> and \<^verbatim>\<open>claim\<close> await the signer's
  address first: with a signer they fail in the same way, without one they reject with
  the failure of \<^verbatim>\<open>getSignerAddress\<close>. \<^verbatim>\<open>getClaimTransaction\<close> and
  \<^verbatim>\<open>claimTo\<close> fail for Claimable only if the ClaimableWithConditions handle is
  absent too; otherwise they are dispatched to that handle. In particular, when the
  descriptor covers the Burnable selectors and none of Mintable's, the burn operations
  are dispatched to the burn handle and \<^verbatim>\<open>mintTo\<close> fails with
  \<^verbatim>\<open>ExtensionNotImplemented(Mintable, ERC1155)\<close>.
\<close>

theorem absent_capability_raises:
  assumes "this = new_Erc1155 reg cw st"
  shows
    "(containsNone (abi cw) (reg ''ERC1155Enumerable'') \<longrightarrow>
        query this = None
      \<and> getAll this q = Rejects (ExtensionNotImplemented Enumerable ERC1155)
      \<and> totalCount this = Rejects (ExtensionNotImplemented Enumerable ERC1155)
      \<and> totalCirculatingSupply this t = Rejects (ExtensionNotImplemented Enumerable ERC1155)
      \<and> getOwned this w = Rejects (ExtensionNotImplemented Enumerable ERC1155))
   \<and> (containsNone (abi cw) (reg ''ERC1155Mintable'') \<longrightarrow>
        mintable this = None
      \<and> mintTo this r md = Rejects (ExtensionNotImplemented Mintable ERC1155)
      \<and> mintAdditionalSupply this t a = Rejects (ExtensionNotImplemented Mintable ERC1155)
      \<and> mintAdditionalSupplyTo this r t a = Rejects (ExtensionNotImplemented Mintable ERC1155)
      \<and> (getSignerAddress cw = Inr s \<longrightarrow>
           mint this md = Rejects (ExtensionNotImplemented Mintable ERC1155))
      \<and> (getSignerAddress cw = Inl e \<longrightarrow> mint this md = Rejects e))
   \<and> (containsNone (abi cw) (reg ''ERC1155BatchMintable'') \<longrightarrow>
        mintable_batch this = None
      \<and> mintBatchTo this r md = Rejects (ExtensionNotImplemented BatchMintable ERC1155)
      \<and> (getSignerAddress cw = Inr s \<longrightarrow>
           mintBatch this md = Rejects (ExtensionNotImplemented BatchMintable ERC1155))
      \<and> (getSignerAddress cw = Inl e \<longrightarrow> mintBatch this md = Rejects e))
   \<and> (containsNone (abi cw) (reg ''ERC1155Burnable'') \<longrightarrow>
        burnable this = None
      \<and> burn this t a = Rejects (ExtensionNotImplemented Burnable ERC1155)
      \<and> burnFrom this acc t a = Rejects (ExtensionNotImplemented Burnable ERC1155)
      \<and> burnBatch this ts as = Rejects (ExtensionNotImplemented Burnable ERC1155)
      \<and> burnBatchFrom this acc ts as = Rejects (ExtensionNotImplemented Burnable ERC1155))
   \<and> (containsNone (abi cw) (reg ''ERC1155LazyMintable'') \<longrightarrow>
        lazyMintable this = None
      \<and> lazyMint this ms opts = Rejects (ExtensionNotImplemented LazyMintable ERC1155))
   \<and> (containsNone (abi cw) (reg ''ERC1155Claimable'') \<longrightarrow>
        lazyMintable_claim this = None
      \<and> (lazyMintable_claimWithConditions this = None \<longrightarrow>
           getClaimTransaction this d t n opts
             = Rejects (ExtensionNotImplemented Claimable ERC1155)
         \<and> claimTo this d t n opts = Rejects (ExtensionNotImplemented Claimable ERC1155)
         \<and> (getSignerAddress cw = Inr s \<longrightarrow>
              Erc1155_claim this t n opts = Rejects (ExtensionNotImplemented Claimable ERC1155)))
      \<and> (lazyMintable_claimWithConditions this = Some c \<longrightarrow>
           getClaimTransaction this d t n opts
             = Resolves (Dispatch ClaimableWithConditions ''getClaimTransaction'' [d, t, n, opts])
         \<and> claimTo this d t n opts
             = Resolves (Dispatch ClaimableWithConditions ''to'' [d, t, n, opts]))
      \<and> (getSignerAddress cw = Inl e \<longrightarrow> Erc1155_claim this t n opts = Rejects e))
   \<and> (containsNone (abi cw) (reg ''ERC1155ClaimableWithConditions'') \<longrightarrow>
        lazyMintable_claimWithConditions this = None
      \<and> claimConditions this
          = Throws (ExtensionNotImplemented ClaimableWithConditions ERC1155))
   \<and> (containsNone (abi cw) (reg ''ERC1155Revealable'') \<longrightarrow>
        lazyMintable_revealer this = None
      \<and> Erc1155_revealer this = Throws (ExtensionNotImplemented Revealable ERC1155))
   \<and> (containsNone (abi cw) (reg ''ERC1155SignatureMintable'') \<longrightarrow>
        signatureMintable this = None
      \<and> signature this = Throws (ExtensionNotImplemented SignatureMintable ERC1155))
   \<and> (set (required (reg ''ERC1155Burnable'')) \<subseteq> set (abi cw)
        \<and> containsNone (abi cw) (reg ''ERC1155Mintable'') \<longrightarrow>
        burn this t a = Resolves (Dispatch Burnable ''tokens'' [t, a])
      \<and> burnFrom this acc t a = Resolves (Dispatch Burnable ''from'' [acc, t, a])
      \<and> burnBatch this ts as = Resolves (Dispatch Burnable ''batch'' [ts, as])
      \<and> burnBatchFrom this acc ts as = Resolves (Dispatch Burnable ''batchFrom'' [acc, ts, as])
      \<and> mintTo this r md = Rejects (ExtensionNotImplemented Mintable ERC1155))"
proof -
  have wrapper: "contractWrapper this = cw"
    using assms by (simp add: new_Erc1155_fields)
  have enumerable: "containsNone (abi cw) (reg ''ERC1155Enumerable'') \<Longrightarrow> query this = None"
    using assms
    by (simp add: new_Erc1155_fields detectErc1155Enumerable_def containsNone_undetected)
  have mint: "containsNone (abi cw) (reg ''ERC1155Mintable'') \<Longrightarrow> mintable this = None"
    using assms
    by (simp add: new_Erc1155_fields detectErc1155Mintable_def containsNone_undetected)
  have batch: "containsNone (abi cw) (reg ''ERC1155BatchMintable'')
      \<Longrightarrow> mintable_batch this = None"
    using assms by (simp add: undetected_subhandles containsNone_undetected)
  have burn: "containsNone (abi cw) (reg ''ERC1155Burnable'') \<Longrightarrow> burnable this = None"
    using assms
    by (simp add: new_Erc1155_fields detectErc1155Burnable_def containsNone_undetected)
  have lazy: "containsNone (abi cw) (reg ''ERC1155LazyMintable'') \<Longrightarrow> lazyMintable this = None"
    using assms
    by (simp add: new_Erc1155_fields detectErc1155LazyMintable_def containsNone_undetected)
  have claimable: "containsNone (abi cw) (reg ''ERC1155Claimable'')
      \<Longrightarrow> lazyMintable_claim this = None"
    using assms by (simp add: undetected_subhandles containsNone_undetected)
  have conditions: "containsNone (abi cw) (reg ''ERC1155ClaimableWithConditions'')
      \<Longrightarrow> lazyMintable_claimWithConditions this = None"
    using assms by (simp add: undetected_subhandles containsNone_undetected)
  have reveal: "containsNone (abi cw) (reg ''ERC1155Revealable'')
      \<Longrightarrow> lazyMintable_revealer this = None"
    using assms by (simp add: undetected_subhandles containsNone_undetected)
  have sig: "containsNone (abi cw) (reg ''ERC1155SignatureMintable'')
      \<Longrightarrow> signatureMintable this = None"
    using assms
    by (simp add: new_Erc1155_fields detectErc1155SignatureMintable_def containsNone_undetected)
  have burns: "set (required (reg ''ERC1155Burnable'')) \<subseteq> set (abi cw)
      \<Longrightarrow> burnable this = Some Erc1155Burnable"
    using assms
    by (simp add: new_Erc1155_fields detectErc1155Burnable_def detectContractFeature_covers)
  have c1: "containsNone (abi cw) (reg ''ERC1155Enumerable'') \<longrightarrow>
        query this = None
      \<and> getAll this q = Rejects (ExtensionNotImplemented Enumerable ERC1155)
      \<and> totalCount this = Rejects (ExtensionNotImplemented Enumerable ERC1155)
      \<and> totalCirculatingSupply this t = Rejects (ExtensionNotImplemented Enumerable ERC1155)
      \<and> getOwned this w = Rejects (ExtensionNotImplemented Enumerable ERC1155)"
    using enumerable by (simp add: enumerable_absent)
  have c2: "containsNone (abi cw) (reg ''ERC1155Mintable'') \<longrightarrow>
        mintable this = None
      \<and> mintTo this r md = Rejects (ExtensionNotImplemented Mintable ERC1155)
      \<and> mintAdditionalSupply this t a = Rejects (ExtensionNotImplemented Mintable ERC1155)
      \<and> mintAdditionalSupplyTo this r t a = Rejects (ExtensionNotImplemented Mintable ERC1155)
      \<and> (getSignerAddress cw = Inr s \<longrightarrow>
           mint this md = Rejects (ExtensionNotImplemented Mintable ERC1155))
      \<and> (getSignerAddress cw = Inl e \<longrightarrow> mint this md = Rejects e)"
    using mint by (simp add: mintable_absent signer_first signer_missing wrapper)
  have c3: "containsNone (abi cw) (reg ''ERC1155BatchMintable'') \<longrightarrow>
        mintable_batch this = None
      \<and> mintBatchTo this r md = Rejects (ExtensionNotImplemented BatchMintable ERC1155)
      \<and> (getSignerAddress cw = Inr s \<longrightarrow>
           mintBatch this md = Rejects (ExtensionNotImplemented BatchMintable ERC1155))
      \<and> (getSignerAddress cw = Inl e \<longrightarrow> mintBatch this md = Rejects e)"
    using batch by (simp add: batch_absent signer_first signer_missing wrapper)
  have c4: "containsNone (abi cw) (reg ''ERC1155Burnable'') \<longrightarrow>
        burnable this = None
      \<and> burn this t a = Rejects (ExtensionNotImplemented Burnable ERC1155)
      \<and> burnFrom this acc t a = Rejects (ExtensionNotImplemented Burnable ERC1155)
      \<and> burnBatch this ts as = Rejects (ExtensionNotImplemented Burnable ERC1155)
      \<and> burnBatchFrom this acc ts as = Rejects (ExtensionNotImplemented Burnable ERC1155)"
    using burn by (simp add: burnable_absent)
  have c5: "containsNone (abi cw) (reg ''ERC1155LazyMintable'') \<longrightarrow>
        lazyMintable this = None
      \<and> lazyMint this ms opts = Rejects (ExtensionNotImplemented LazyMintable ERC1155)"
    using lazy by (simp add: lazyMintable_absent)
  have c6: "containsNone (abi cw) (reg ''ERC1155Claimable'') \<longrightarrow>
        lazyMintable_claim this = None
      \<and> (lazyMintable_claimWithConditions this = None \<longrightarrow>
           getClaimTransaction this d t n opts
             = Rejects (ExtensionNotImplemented Claimable ERC1155)
         \<and> claimTo this d t n opts = Rejects (ExtensionNotImplemented Claimable ERC1155)
         \<and> (getSignerAddress cw = Inr s \<longrightarrow>
              Erc1155_claim this t n opts = Rejects (ExtensionNotImplemented Claimable ERC1155)))
      \<and> (lazyMintable_claimWithConditions this = Some c \<longrightarrow>
           getClaimTransaction this d t n opts
             = Resolves (Dispatch ClaimableWithConditions ''getClaimTransaction'' [d, t, n, opts])
         \<and> claimTo this d t n opts
             = Resolves (Dispatch ClaimableWithConditions ''to'' [d, t, n, opts]))
      \<and> (getSignerAddress cw = Inl e \<longrightarrow> Erc1155_claim this t n opts = Rejects e)"
    using claimable
    by (simp add: claim_absent conditions_present signer_first signer_missing wrapper)
  have c7: "containsNone (abi cw) (reg ''ERC1155ClaimableWithConditions'') \<longrightarrow>
        lazyMintable_claimWithConditions this = None
      \<and> claimConditions this
          = Throws (ExtensionNotImplemented ClaimableWithConditions ERC1155)"
    using conditions by (simp add: conditions_absent)
  have c8: "containsNone (abi cw) (reg ''ERC1155Revealable'') \<longrightarrow>
        lazyMintable_revealer this = None
      \<and> Erc1155_revealer this = Throws (ExtensionNotImplemented Revealable ERC1155)"
    using reveal by (simp add: revealer_absent)
  have c9: "containsNone (abi cw) (reg ''ERC1155SignatureMintable'') \<longrightarrow>
        signatureMintable this = None
      \<and> signature this = Throws (ExtensionNotImplemented SignatureMintable ERC1155)"
    using sig by (simp add: signatureMintable_absent)
  have c10: "set (required (reg ''ERC1155Burnable'')) \<subseteq> set (abi cw)
        \<and> containsNone (abi cw) (reg ''ERC1155Mintable'') \<longrightarrow>
        burn this t a = Resolves (Dispatch Burnable ''tokens'' [t, a])
      \<and> burnFrom this acc t a = Resolves (Dispatch Burnable ''from'' [acc, t, a])
      \<and> burnBatch this ts as = Resolves (Dispatch Burnable ''batch'' [ts, as])
      \<and> burnBatchFrom this acc ts as = Resolves (Dispatch Burnable ''batchFrom'' [acc, ts, as])
      \<and> mintTo this r md = Rejects (ExtensionNotImplemented Mintable ERC1155)"
    using mint burns by (simp add: burnable_present mintable_absent)
  from c1 c2 c3 c4 c5 c6 c7 c8 c9 c10 show ?thesis
    by blast
qed

text \<open>
  Instances: the contract with the core and the burn selectors only; for Burnable the
  one with the batch selectors only; for the missing signer the contract with the core
  selectors only; and for Claimable the contract that has the claim-condition selectors.
\<close>

theorem absent_capability_raises_witness:
  "containsNone (abi burnOnlyWrapper) (exampleRegistry ''ERC1155Mintable'')
   \<and> set (required (exampleRegistry ''ERC1155Burnable'')) \<subseteq> set (abi burnOnlyWrapper)
   \<and> mintable (new_Erc1155 exampleRegistry burnOnlyWrapper exampleStorage) = None
   \<and> mintTo (new_Erc1155 exampleRegistry burnOnlyWrapper exampleStorage) ''0xreceiver'' ''metadata''
       = Rejects (ExtensionNotImplemented Mintable ERC1155)
   \<and> mint (new_Erc1155 exampleRegistry burnOnlyWrapper exampleStorage) ''metadata''
       = Rejects (ExtensionNotImplemented Mintable ERC1155)
   \<and> mintBatchTo (new_Erc1155 exampleRegistry burnOnlyWrapper exampleStorage)
         ''0xreceiver'' ''metadata''
       = Rejects (ExtensionNotImplemented BatchMintable ERC1155)
   \<and> getAll (new_Erc1155 exampleRegistry burnOnlyWrapper exampleStorage) ''all''
       = Rejects (ExtensionNotImplemented Enumerable ERC1155)
   \<and> lazyMint (new_Erc1155 exampleRegistry burnOnlyWrapper exampleStorage) ''metadatas'' ''options''
       = Rejects (ExtensionNotImplemented LazyMintable ERC1155)
   \<and> claimTo (new_Erc1155 exampleRegistry burnOnlyWrapper exampleStorage)
         ''0xreceiver'' ''0'' ''1'' ''options''
       = Rejects (ExtensionNotImplemented Claimable ERC1155)
   \<and> Erc1155_claim (new_Erc1155 exampleRegistry burnOnlyWrapper exampleStorage)
         ''0'' ''1'' ''options''
       = Rejects (ExtensionNotImplemented Claimable ERC1155)
   \<and> claimConditions (new_Erc1155 exampleRegistry burnOnlyWrapper exampleStorage)
       = Throws (ExtensionNotImplemented ClaimableWithConditions ERC1155)
   \<and> Erc1155_revealer (new_Erc1155 exampleRegistry burnOnlyWrapper exampleStorage)
       = Throws (ExtensionNotImplemented Revealable ERC1155)
   \<and> signature (new_Erc1155 exampleRegistry burnOnlyWrapper exampleStorage)
       = Throws (ExtensionNotImplemented SignatureMintable ERC1155)
   \<and> burn (new_Erc1155 exampleRegistry burnOnlyWrapper exampleStorage) ''0'' ''1''
       = Resolves (Dispatch Burnable ''tokens'' [''0'', ''1''])
   \<and> containsNone (abi batchOnlyWrapper) (exampleRegistry ''ERC1155Burnable'')
   \<and> burn (new_Erc1155 exampleRegistry batchOnlyWrapper exampleStorage) ''0'' ''1''
       = Rejects (ExtensionNotImplemented Burnable ERC1155)
   \<and> containsNone (abi readOnlyWrapper) (exampleRegistry ''ERC1155Mintable'')
   \<and> mint (new_Erc1155 exampleRegistry readOnlyWrapper exampleStorage) ''metadata''
       = Rejects (CallFailed ''no signer'')
   \<and> containsNone (abi conditionsWrapper) (conditionsRegistry ''ERC1155Claimable'')
   \<and> lazyMintable_claim (new_Erc1155 conditionsRegistry conditionsWrapper exampleStorage) = None
   \<and> claimTo (new_Erc1155 conditionsRegistry conditionsWrapper exampleStorage)
         ''0xreceiver'' ''0'' ''1'' ''options''
       = Resolves (Dispatch ClaimableWithConditions ''to''
           [''0xreceiver'', ''0'', ''1'', ''options''])"
  using absent_capability_raises
    [where this = "new_Erc1155 exampleRegistry burnOnlyWrapper exampleStorage"
       and reg = exampleRegistry and cw = burnOnlyWrapper and st = exampleStorage
       and r = "''0xreceiver''" and md = "''metadata''" and t = "''0''" and a = "''1''"
       and q = "''all''" and s = "''0xsigner''" and ms = "''metadatas''"
       and opts = "''options''" and d = "''0xreceiver''" and n = "''1''", OF refl]
    absent_capability_raises
    [where this = "new_Erc1155 exampleRegistry batchOnlyWrapper exampleStorage"
       and reg = exampleRegistry and cw = batchOnlyWrapper and st = exampleStorage
       and t = "''0''" and a = "''1''", OF refl]
    absent_capability_raises
    [where this = "new_Erc1155 exampleRegistry readOnlyWrapper exampleStorage"
       and reg = exampleRegistry and cw = readOnlyWrapper and st = exampleStorage
       and md = "''metadata''" and e = "CallFailed ''no signer''", OF refl]
    absent_capability_raises
    [where this = "new_Erc1155 conditionsRegistry conditionsWrapper exampleStorage"
       and reg = conditionsRegistry and cw = conditionsWrapper and st = exampleStorage
       and d = "''0xreceiver''" and t = "''0''" and n = "''1''" and opts = "''options''"
       and c = "\<lparr>conditions = DropErc1155ClaimConditions\<rparr>", OF refl]
    burnOnly_facts burnOnly_subcapabilities burnOnly_conditions batchOnly_facts(4)
    readOnly_facts conditions_facade
  by simp

text \<open>
  Claim C3 as stated fails for \<^verbatim>\<open>mint\<close>. The contract with the core selectors only
  holds none of Mintable's selectors and its mint handle is absent. Read without a
  signer, \<^verbatim>\<open>mint\<close> rejects with the failure of \<^verbatim>\<open>getSignerAddress\<close>, which it
  awaits before it calls \<^verbatim>\<open>mintTo\<close>, and not with \<^verbatim>\<open>ExtensionNotImplemented\<close>.
\<close>

theorem mint_rejects_with_signer_failure:
  "containsNone (abi readOnlyWrapper) (exampleRegistry ''ERC1155Mintable'')
   \<and> mintable (new_Erc1155 exampleRegistry readOnlyWrapper exampleStorage) = None
   \<and> mint (new_Erc1155 exampleRegistry readOnlyWrapper exampleStorage) ''metadata''
       = Rejects (CallFailed ''no signer'')
   \<and> mint (new_Erc1155 exampleRegistry readOnlyWrapper exampleStorage) ''metadata''
       \<noteq> Rejects (ExtensionNotImplemented Mintable ERC1155)"
  by (simp add: readOnly_facts readOnly_facade signer_missing)

text \<open>
  Claim C4. BatchMintable is a composite capability. For a facade built over a contract
  whose descriptor covers the BatchMintable selectors and does not cover the Mintable
  selectors: the mint handle is absent, so is the batch handle read through it, and
  \<^verbatim>\<open>mintBatchTo\<close> fails with \<^verbatim>\<open>ExtensionNotImplemented\<close> for BatchMintable
  (\<^verbatim>\<open>mintBatch\<close> likewise, once the signer's address is known). On every facade a
  batch handle is reached through a present mint handle only.
\<close>

theorem batch_needs_mintable:
  assumes "this = new_Erc1155 reg cw st"
    and "set (required (reg ''ERC1155BatchMintable'')) \<subseteq> set (abi cw)"
    and "\<not> set (required (reg ''ERC1155Mintable'')) \<subseteq> set (abi cw)"
  shows "mintable this = None
       \<and> mintable_batch this = None
       \<and> mintBatchTo this r md = Rejects (ExtensionNotImplemented BatchMintable ERC1155)
       \<and> (getSignerAddress cw = Inr s \<longrightarrow>
            mintBatch this md = Rejects (ExtensionNotImplemented BatchMintable ERC1155))
       \<and> (mintable_batch facade = Some b \<longrightarrow> (\<exists>h. mintable facade = Some h \<and> batch h = Some b))"
proof -
  have absent: "mintable this = None"
    using assms(1,3)
    by (simp add: new_Erc1155_fields detectErc1155Mintable_def detectContractFeature_covers)
  have wrapper: "contractWrapper this = cw"
    using assms(1) by (simp add: new_Erc1155_fields)
  have through: "mintable_batch facade = Some b \<longrightarrow> (\<exists>h. mintable facade = Some h \<and> batch h = Some b)"
    by (simp add: mintable_batch_def split: option.splits)
  show ?thesis
    using absent through
    by (simp add: mintable_absent signer_first wrapper) (simp add: mintable_batch_def)
qed

text \<open>
  An instance: the synthetic contract with the batch selectors only. Its own probe for
  BatchMintable succeeds, and the capability is absent all the same. On the contract
  with both sets of selectors the batch handle is the one inside the mint handle.
\<close>

theorem batch_needs_mintable_witness:
  "detectContractFeature exampleRegistry batchOnlyWrapper ''ERC1155BatchMintable''
   \<and> mintable_batch (new_Erc1155 exampleRegistry batchOnlyWrapper exampleStorage) = None
   \<and> mintBatchTo (new_Erc1155 exampleRegistry batchOnlyWrapper exampleStorage)
        ''0xreceiver'' ''metadata''
       = Rejects (ExtensionNotImplemented BatchMintable ERC1155)
   \<and> mintBatch (new_Erc1155 exampleRegistry batchOnlyWrapper exampleStorage) ''metadata''
       = Rejects (ExtensionNotImplemented BatchMintable ERC1155)
   \<and> mintable_batch (new_Erc1155 exampleRegistry mintingWrapper exampleStorage)
       = Some Erc1155BatchMintable
   \<and> mintable (new_Erc1155 exampleRegistry mintingWrapper exampleStorage)
       = Some \<lparr>batch = Some Erc1155BatchMintable\<rparr>"
  using batch_needs_mintable
    [where this = "new_Erc1155 exampleRegistry batchOnlyWrapper exampleStorage"
       and reg = exampleRegistry and cw = batchOnlyWrapper and st = exampleStorage
       and r = "''0xreceiver''" and md = "''metadata''" and s = "''0xsigner''"
       and facade = "new_Erc1155 exampleRegistry mintingWrapper exampleStorage"
       and b = Erc1155BatchMintable, OF refl batchOnly_facts(1,2)]
    batchOnly_facts(3,5) minting_facade
  by simp

text \<open>
  Claim C5. Construction does not fail on a missing capability. Over any probe that
  answers, the constructor completes, whatever the answers are. The facade it returns
  holds its arguments, and each optional field is a handle if the probe answered
  \<^verbatim>\<open>true\<close> for its capability and absent if it answered \<^verbatim>\<open>false\<close>. Nothing is
  swallowed: construction fails only with an exception of the probe, and an exception
  of the probe for one of the five capabilities of the facade makes it fail, so that no
  field is ever left absent in place of a failure. Over the probe of the specification,
  which always answers, the constructor returns the facade \<open>new_Erc1155\<close>, whose
  fields are absent exactly when the support level is not \<open>FULL\<close>. The
  \<^verbatim>\<open>ExtensionNotImplemented\<close> failure arises at the use of an accessor, exactly when
  the field of its capability is absent.
\<close>

theorem construction_never_throws:
  "((\<forall>n. \<exists>b. detect cw n = Inr b) \<longrightarrow> (\<exists>f. Erc1155_constructor detect cw st = Inr f))
   \<and> (Erc1155_constructor detect cw st = Inr f \<longrightarrow>
        contractWrapper f = cw \<and> storage f = st
      \<and> detect cw ''ERC1155Enumerable'' = Inr (query f \<noteq> None)
      \<and> detect cw ''ERC1155Mintable'' = Inr (mintable f \<noteq> None)
      \<and> detect cw ''ERC1155Burnable'' = Inr (burnable f \<noteq> None)
      \<and> detect cw ''ERC1155LazyMintable'' = Inr (lazyMintable f \<noteq> None)
      \<and> detect cw ''ERC1155SignatureMintable'' = Inr (signatureMintable f \<noteq> None))
   \<and> (Erc1155_constructor detect cw st = Inl e \<longrightarrow> (\<exists>n. detect cw n = Inl e))
   \<and> (n \<in> set facadeFeatures \<and> detect cw n = Inl e' \<longrightarrow>
        (\<exists>e''. Erc1155_constructor detect cw st = Inl e''))
   \<and> Erc1155_constructor (specProbe reg) cw st = Inr (new_Erc1155 reg cw st)
   \<and> (query (new_Erc1155 reg cw st) = None)
       = (supports (abi cw) (reg ''ERC1155Enumerable'') \<noteq> FULL)
   \<and> (mintable (new_Erc1155 reg cw st) = None)
       = (supports (abi cw) (reg ''ERC1155Mintable'') \<noteq> FULL)
   \<and> (burnable (new_Erc1155 reg cw st) = None)
       = (supports (abi cw) (reg ''ERC1155Burnable'') \<noteq> FULL)
   \<and> (lazyMintable (new_Erc1155 reg cw st) = None)
       = (supports (abi cw) (reg ''ERC1155LazyMintable'') \<noteq> FULL)
   \<and> (signatureMintable (new_Erc1155 reg cw st) = None)
       = (supports (abi cw) (reg ''ERC1155SignatureMintable'') \<noteq> FULL)
   \<and> (getAll this q = Rejects (ExtensionNotImplemented Enumerable ERC1155)) = (query this = None)
   \<and> (mintTo this r md = Rejects (ExtensionNotImplemented Mintable ERC1155)) = (mintable this = None)
   \<and> (burn this t a = Rejects (ExtensionNotImplemented Burnable ERC1155)) = (burnable this = None)
   \<and> (lazyMint this ms opts = Rejects (ExtensionNotImplemented LazyMintable ERC1155))
       = (lazyMintable this = None)
   \<and> (signature this = Throws (ExtensionNotImplemented SignatureMintable ERC1155))
       = (signatureMintable this = None)"
proof -
  have completes:
    "(\<forall>n. \<exists>b. detect cw n = Inr b) \<longrightarrow> (\<exists>f. Erc1155_constructor detect cw st = Inr f)"
    using constructor_total [of detect cw st] by blast
  have fields: "Erc1155_constructor detect cw st = Inr f \<longrightarrow>
        contractWrapper f = cw \<and> storage f = st
      \<and> detect cw ''ERC1155Enumerable'' = Inr (query f \<noteq> None)
      \<and> detect cw ''ERC1155Mintable'' = Inr (mintable f \<noteq> None)
      \<and> detect cw ''ERC1155Burnable'' = Inr (burnable f \<noteq> None)
      \<and> detect cw ''ERC1155LazyMintable'' = Inr (lazyMintable f \<noteq> None)
      \<and> detect cw ''ERC1155SignatureMintable'' = Inr (signatureMintable f \<noteq> None)"
    using constructed_fields [of detect cw st f] by blast
  have own: "Erc1155_constructor detect cw st = Inl e \<longrightarrow> (\<exists>n. detect cw n = Inl e)"
    using constructor_failure [of detect cw st e] by blast
  have propagates: "n \<in> set facadeFeatures \<and> detect cw n = Inl e' \<longrightarrow>
        (\<exists>e''. Erc1155_constructor detect cw st = Inl e'')"
    using constructor_propagates [of n detect cw e' st] by blast
  have spec: "Erc1155_constructor (specProbe reg) cw st = Inr (new_Erc1155 reg cw st)"
    by (rule constructor_specProbe)
  have levels:
    "(query (new_Erc1155 reg cw st) = None)
       = (supports (abi cw) (reg ''ERC1155Enumerable'') \<noteq> FULL)"
    "(mintable (new_Erc1155 reg cw st) = None)
       = (supports (abi cw) (reg ''ERC1155Mintable'') \<noteq> FULL)"
    "(burnable (new_Erc1155 reg cw st) = None)
       = (supports (abi cw) (reg ''ERC1155Burnable'') \<noteq> FULL)"
    "(lazyMintable (new_Erc1155 reg cw st) = None)
       = (supports (abi cw) (reg ''ERC1155LazyMintable'') \<noteq> FULL)"
    "(signatureMintable (new_Erc1155 reg cw st) = None)
       = (supports (abi cw) (reg ''ERC1155SignatureMintable'') \<noteq> FULL)"
    by (simp_all add: new_Erc1155_fields detectErc1155Enumerable_def detectErc1155Mintable_def
        detectErc1155Burnable_def detectErc1155LazyMintable_def
        detectErc1155SignatureMintable_def detectContractFeature_def)
  have use:
    "(getAll this q = Rejects (ExtensionNotImplemented Enumerable ERC1155)) = (query this = None)"
    "(mintTo this r md = Rejects (ExtensionNotImplemented Mintable ERC1155)) = (mintable this = None)"
    "(burn this t a = Rejects (ExtensionNotImplemented Burnable ERC1155)) = (burnable this = None)"
    "(lazyMint this ms opts = Rejects (ExtensionNotImplemented LazyMintable ERC1155))
       = (lazyMintable this = None)"
    "(signature this = Throws (ExtensionNotImplemented SignatureMintable ERC1155))
       = (signatureMintable this = None)"
    by (rule getAll_raises_iff mintTo_raises_iff burn_raises_iff lazyMint_raises_iff
        signature_raises_iff)+
  from completes fields own propagates spec levels use show ?thesis
    by blast
qed

text \<open>
  Instances: the contract with the core and the burn selectors only, under the probe of
  the specification; and the same contract under a probe that throws for Burnable.
\<close>

theorem construction_never_throws_witness:
  "Erc1155_constructor (specProbe exampleRegistry) burnOnlyWrapper exampleStorage
     = Inr (new_Erc1155 exampleRegistry burnOnlyWrapper exampleStorage)
   \<and> specProbe exampleRegistry burnOnlyWrapper ''ERC1155Mintable'' = Inr False
   \<and> specProbe exampleRegistry burnOnlyWrapper ''ERC1155Burnable'' = Inr True
   \<and> supports (abi burnOnlyWrapper) (exampleRegistry ''ERC1155Mintable'') \<noteq> FULL
   \<and> mintable (new_Erc1155 exampleRegistry burnOnlyWrapper exampleStorage) = None
   \<and> mintTo (new_Erc1155 exampleRegistry burnOnlyWrapper exampleStorage) ''0xreceiver'' ''metadata''
       = Rejects (ExtensionNotImplemented Mintable ERC1155)
   \<and> burn (new_Erc1155 exampleRegistry burnOnlyWrapper exampleStorage) ''0'' ''1''
       \<noteq> Rejects (ExtensionNotImplemented Burnable ERC1155)
   \<and> failingProbe burnOnlyWrapper ''ERC1155Burnable'' = Inl (CallFailed ''probe'')
   \<and> Erc1155_constructor failingProbe burnOnlyWrapper exampleStorage
       = Inl (CallFailed ''probe'')"
proof -
  note built = construction_never_throws
    [where detect = "specProbe exampleRegistry" and cw = burnOnlyWrapper
       and st = exampleStorage and reg = exampleRegistry
       and f = "new_Erc1155 exampleRegistry burnOnlyWrapper exampleStorage"
       and this = "new_Erc1155 exampleRegistry burnOnlyWrapper exampleStorage"
       and r = "''0xreceiver''" and md = "''metadata''" and t = "''0''" and a = "''1''"]
  note failed = construction_never_throws
    [where detect = failingProbe and cw = burnOnlyWrapper and st = exampleStorage
       and n = "''ERC1155Burnable''" and e' = "CallFailed ''probe''"
       and e = "CallFailed ''probe''"]
  from built have spec:
    "Erc1155_constructor (specProbe exampleRegistry) burnOnlyWrapper exampleStorage
       = Inr (new_Erc1155 exampleRegistry burnOnlyWrapper exampleStorage)"
    by blast
  from built spec have minting_probe:
    "specProbe exampleRegistry burnOnlyWrapper ''ERC1155Mintable''
       = Inr (mintable (new_Erc1155 exampleRegistry burnOnlyWrapper exampleStorage) \<noteq> None)"
    by blast
  from built spec have burning_probe:
    "specProbe exampleRegistry burnOnlyWrapper ''ERC1155Burnable''
       = Inr (burnable (new_Erc1155 exampleRegistry burnOnlyWrapper exampleStorage) \<noteq> None)"
    by blast
  from built have level:
    "(mintable (new_Erc1155 exampleRegistry burnOnlyWrapper exampleStorage) = None)
       = (supports (abi burnOnlyWrapper) (exampleRegistry ''ERC1155Mintable'') \<noteq> FULL)"
    by blast
  from built have minting:
    "(mintTo (new_Erc1155 exampleRegistry burnOnlyWrapper exampleStorage) ''0xreceiver'' ''metadata''
        = Rejects (ExtensionNotImplemented Mintable ERC1155))
       = (mintable (new_Erc1155 exampleRegistry burnOnlyWrapper exampleStorage) = None)"
    by blast
  from built have burning:
    "(burn (new_Erc1155 exampleRegistry burnOnlyWrapper exampleStorage) ''0'' ''1''
        = Rejects (ExtensionNotImplemented Burnable ERC1155))
       = (burnable (new_Erc1155 exampleRegistry burnOnlyWrapper exampleStorage) = None)"
    by blast
  have thrown: "failingProbe burnOnlyWrapper ''ERC1155Burnable'' = Inl (CallFailed ''probe'')"
    by (simp add: failingProbe_def)
  have asked: "''ERC1155Burnable'' \<in> set facadeFeatures"
    by (simp add: facadeFeatures_def)
  from failed thrown asked
  have "\<exists>e''. Erc1155_constructor failingProbe burnOnlyWrapper exampleStorage = Inl e''"
    by blast
  have c1: "specProbe exampleRegistry burnOnlyWrapper ''ERC1155Mintable'' = Inr False"
    using minting_probe burnOnly_facade(2) by simp
  have c2: "specProbe exampleRegistry burnOnlyWrapper ''ERC1155Burnable'' = Inr True"
    using burning_probe burnOnly_facade(3) by simp
  have c3: "supports (abi burnOnlyWrapper) (exampleRegistry ''ERC1155Mintable'') \<noteq> FULL"
    using level burnOnly_facade(2) by simp
  have c4: "mintTo (new_Erc1155 exampleRegistry burnOnlyWrapper exampleStorage)
       ''0xreceiver'' ''metadata'' = Rejects (ExtensionNotImplemented Mintable ERC1155)"
    using minting burnOnly_facade(2) by simp
  have c5: "burn (new_Erc1155 exampleRegistry burnOnlyWrapper exampleStorage) ''0'' ''1''
       \<noteq> Rejects (ExtensionNotImplemented Burnable ERC1155)"
    using burning burnOnly_facade(3) by simp
  from spec c1 c2 c3 burnOnly_facade(2) c4 c5 thrown failingProbe_construction
  show ?thesis
    by blast
qed

text \<open>
  Claim C6, amended. For an absent capability the \<^verbatim>\<open>ExtensionNotImplemented\<close>
  failure is raised by the guard at the point of use, before any other step of the
  accessor that holds the guard: \<^verbatim>\<open>mintAdditionalSupply\<close> fails with it whether or
  not there is a signer. The getters \<^verbatim>\<open>claimConditions\<close>, \<^verbatim>\<open>signature\<close> and
  \<^verbatim>\<open>revealer\<close> throw it synchronously at the call site. The methods declared async
  deliver it as the rejection of the promise they return. Absence is that of the handle
  the accessor reads: a field of the facade, or a field of the mint or lazy-mint
  handle. \<^verbatim>\<open>mint\<close>, \<^verbatim>\<open>mintBatch\<close> and \<^verbatim>\<open>claim\<close> await the signer's address
  before they reach the guard: they reject with its failure when there is no signer,
  and otherwise end as \<^verbatim>\<open>mintTo\<close>, \<^verbatim>\<open>mintBatchTo\<close> and \<^verbatim>\<open>claimTo\<close> do.
\<close>

theorem absent_capability_failure_delivery:
  "(query this = None \<longrightarrow>
      getAll this q = Rejects (ExtensionNotImplemented Enumerable ERC1155)
    \<and> totalCount this = Rejects (ExtensionNotImplemented Enumerable ERC1155)
    \<and> totalCirculatingSupply this t = Rejects (ExtensionNotImplemented Enumerable ERC1155)
    \<and> getOwned this w = Rejects (ExtensionNotImplemented Enumerable ERC1155))
   \<and> (mintable this = None \<longrightarrow>
      mintTo this r md = Rejects (ExtensionNotImplemented Mintable ERC1155)
    \<and> mintAdditionalSupply this t a = Rejects (ExtensionNotImplemented Mintable ERC1155)
    \<and> mintAdditionalSupplyTo this r t a = Rejects (ExtensionNotImplemented Mintable ERC1155))
   \<and> (mintable_batch this = None \<longrightarrow>
      mintBatchTo this r md = Rejects (ExtensionNotImplemented BatchMintable ERC1155))
   \<and> (burnable this = None \<longrightarrow>
      burn this t a = Rejects (ExtensionNotImplemented Burnable ERC1155)
    \<and> burnFrom this acc t a = Rejects (ExtensionNotImplemented Burnable ERC1155)
    \<and> burnBatch this ts as = Rejects (ExtensionNotImplemented Burnable ERC1155)
    \<and> burnBatchFrom this acc ts as = Rejects (ExtensionNotImplemented Burnable ERC1155))
   \<and> (lazyMintable this = None \<longrightarrow>
      lazyMint this ms opts = Rejects (ExtensionNotImplemented LazyMintable ERC1155))
   \<and> (lazyMintable_claimWithConditions this = None \<and> lazyMintable_claim this = None \<longrightarrow>
      getClaimTransaction this d t n opts = Rejects (ExtensionNotImplemented Claimable ERC1155)
    \<and> claimTo this d t n opts = Rejects (ExtensionNotImplemented Claimable ERC1155))
   \<and> (lazyMintable_claimWithConditions this = None \<longrightarrow>
      claimConditions this = Throws (ExtensionNotImplemented ClaimableWithConditions ERC1155))
   \<and> (lazyMintable_revealer this = None \<longrightarrow>
      Erc1155_revealer this = Throws (ExtensionNotImplemented Revealable ERC1155))
   \<and> (signatureMintable this = None \<longrightarrow>
      signature this = Throws (ExtensionNotImplemented SignatureMintable ERC1155))
   \<and> (getSignerAddress (contractWrapper this) = Inl e \<longrightarrow>
      mint this md = Rejects e
    \<and> mintBatch this md = Rejects e
    \<and> Erc1155_claim this t n opts = Rejects e)
   \<and> (getSignerAddress (contractWrapper this) = Inr s \<longrightarrow>
      mint this md = mintTo this s md
    \<and> mintBatch this md = mintBatchTo this s md
    \<and> Erc1155_claim this t n opts = claimTo this s t n opts)"
  by (simp add: enumerable_absent mintable_absent batch_absent burnable_absent
      lazyMintable_absent claim_absent conditions_absent revealer_absent
      signatureMintable_absent signer_missing signer_first)

text \<open>
  Instances: the contract with the core selectors only, read without a signer; the
  contract with the lazy-mint selector only, where the lazy-mint handle is present and
  the handles read through it are absent; and the burn-only contract, which has a
  signer.
\<close>

theorem absent_capability_failure_delivery_witness:
  "getAll (new_Erc1155 exampleRegistry readOnlyWrapper exampleStorage) ''all''
     = Rejects (ExtensionNotImplemented Enumerable ERC1155)
   \<and> mintTo (new_Erc1155 exampleRegistry readOnlyWrapper exampleStorage) ''0xreceiver'' ''metadata''
     = Rejects (ExtensionNotImplemented Mintable ERC1155)
   \<and> mintAdditionalSupply (new_Erc1155 exampleRegistry readOnlyWrapper exampleStorage) ''0'' ''1''
     = Rejects (ExtensionNotImplemented Mintable ERC1155)
   \<and> mintBatchTo (new_Erc1155 exampleRegistry readOnlyWrapper exampleStorage)
        ''0xreceiver'' ''metadata''
     = Rejects (ExtensionNotImplemented BatchMintable ERC1155)
   \<and> burn (new_Erc1155 exampleRegistry readOnlyWrapper exampleStorage) ''0'' ''1''
     = Rejects (ExtensionNotImplemented Burnable ERC1155)
   \<and> lazyMint (new_Erc1155 exampleRegistry readOnlyWrapper exampleStorage) ''metadatas'' ''options''
     = Rejects (ExtensionNotImplemented LazyMintable ERC1155)
   \<and> signature (new_Erc1155 exampleRegistry readOnlyWrapper exampleStorage)
     = Throws (ExtensionNotImplemented SignatureMintable ERC1155)
   \<and> mint (new_Erc1155 exampleRegistry readOnlyWrapper exampleStorage) ''metadata''
     = Rejects (CallFailed ''no signer'')
   \<and> lazyMintable (new_Erc1155 exampleRegistry lazyOnlyWrapper exampleStorage)
     = Some \<lparr>claimWithConditions = None, claim = None, revealer = None\<rparr>
   \<and> claimTo (new_Erc1155 exampleRegistry lazyOnlyWrapper exampleStorage)
        ''0xreceiver'' ''0'' ''1'' ''options''
     = Rejects (ExtensionNotImplemented Claimable ERC1155)
   \<and> claimConditions (new_Erc1155 exampleRegistry lazyOnlyWrapper exampleStorage)
     = Throws (ExtensionNotImplemented ClaimableWithConditions ERC1155)
   \<and> Erc1155_revealer (new_Erc1155 exampleRegistry lazyOnlyWrapper exampleStorage)
     = Throws (ExtensionNotImplemented Revealable ERC1155)
   \<and> mint (new_Erc1155 exampleRegistry burnOnlyWrapper exampleStorage) ''metadata''
     = mintTo (new_Erc1155 exampleRegistry burnOnlyWrapper exampleStorage) ''0xsigner'' ''metadata''"
proof -
  have signer: "getSignerAddress
      (contractWrapper (new_Erc1155 exampleRegistry burnOnlyWrapper exampleStorage))
      = Inr ''0xsigner''"
    by (simp add: new_Erc1155_fields burnOnlyWrapper_def)
  show ?thesis
    using absent_capability_failure_delivery
      [where this = "new_Erc1155 exampleRegistry readOnlyWrapper exampleStorage"
         and q = "''all''" and r = "''0xreceiver''" and md = "''metadata''" and t = "''0''"
         and a = "''1''" and ms = "''metadatas''" and opts = "''options''"
         and e = "CallFailed ''no signer''"]
      absent_capability_failure_delivery
      [where this = "new_Erc1155 exampleRegistry lazyOnlyWrapper exampleStorage"
         and d = "''0xreceiver''" and t = "''0''" and n = "''1''" and opts = "''options''"]
      absent_capability_failure_delivery
      [where this = "new_Erc1155 exampleRegistry burnOnlyWrapper exampleStorage"
         and md = "''metadata''" and s = "''0xsigner''"]
      readOnly_facade readOnly_subhandles lazyOnly_facade signer
    by simp
qed

text \<open>
  Claim C6 as stated fails: on a facade without the mint capability, \<^verbatim>\<open>mintTo\<close>
  does not throw at the call site, it returns a promise that rejects; and without a
  signer \<^verbatim>\<open>mint\<close> rejects with the failure of the signer lookup.
\<close>

theorem mintTo_rejects_asynchronously:
  "mintable (new_Erc1155 exampleRegistry readOnlyWrapper exampleStorage) = None
   \<and> mintTo (new_Erc1155 exampleRegistry readOnlyWrapper exampleStorage) ''0xreceiver'' ''metadata''
       \<noteq> Throws (ExtensionNotImplemented Mintable ERC1155)
   \<and> mintTo (new_Erc1155 exampleRegistry readOnlyWrapper exampleStorage) ''0xreceiver'' ''metadata''
       = Rejects (ExtensionNotImplemented Mintable ERC1155)
   \<and> mint (new_Erc1155 exampleRegistry readOnlyWrapper exampleStorage) ''metadata''
       = Rejects (CallFailed ''no signer'')"
  using readOnly_facade
  by (simp add: mintable_absent signer_missing)

text \<open>
  Claim C7, amended. \<^verbatim>\<open>onNetworkUpdated\<close> only hands the new network or signer to
  the shared contract wrapper. It leaves the storage and the five capability fields as
  the constructor set them: no handle is invalidated or derived again, and no
  descriptor is fetched. The facade equals one built afresh over the updated wrapper
  whenever the update leaves the wrapper's ABI unchanged.
\<close>

theorem onNetworkUpdated_keeps_handles:
  "contractWrapper (onNetworkUpdated upd this network) = upd (contractWrapper this) network
   \<and> storage (onNetworkUpdated upd this network) = storage this
   \<and> query (onNetworkUpdated upd this network) = query this
   \<and> mintable (onNetworkUpdated upd this network) = mintable this
   \<and> burnable (onNetworkUpdated upd this network) = burnable this
   \<and> lazyMintable (onNetworkUpdated upd this network) = lazyMintable this
   \<and> signatureMintable (onNetworkUpdated upd this network) = signatureMintable this
   \<and> (abi (upd cw network) = abi cw \<longrightarrow>
        onNetworkUpdated upd (new_Erc1155 reg cw st) network = new_Erc1155 reg (upd cw network) st)"
  by (simp add: onNetworkUpdated_def new_Erc1155_def detectErc1155Enumerable_def
      detectErc1155Mintable_def detectErc1155Burnable_def detectErc1155LazyMintable_def
      detectErc1155SignatureMintable_def detectContractFeature_def new_Erc1155Mintable_def
      new_Erc1155LazyMintable_def)

text \<open>An instance: an update that replaces the signer.\<close>

theorem onNetworkUpdated_keeps_handles_witness:
  "abi (switchSigner burnOnlyWrapper ''0xother'') = abi burnOnlyWrapper
   \<and> onNetworkUpdated switchSigner (new_Erc1155 exampleRegistry burnOnlyWrapper exampleStorage)
        ''0xother''
      = new_Erc1155 exampleRegistry (switchSigner burnOnlyWrapper ''0xother'') exampleStorage"
  using onNetworkUpdated_keeps_handles
    [where upd = switchSigner and cw = burnOnlyWrapper and network = "''0xother''"
       and reg = exampleRegistry and st = exampleStorage]
  by (simp add: switchSigner_def)

text \<open>
  Claim C7 as stated fails. Take the case most favourable to it, an update after which
  the wrapper holds a new descriptor, here one with the core selectors only: the
  facade still holds the burn handle derived from the old descriptor and \<^verbatim>\<open>burn\<close>
  is dispatched to it, while a facade built over the updated wrapper has none.
\<close>

theorem onNetworkUpdated_stale_handle:
  "burnable (onNetworkUpdated switchNetwork
              (new_Erc1155 exampleRegistry burnOnlyWrapper exampleStorage) ''other'')
     = Some Erc1155Burnable
   \<and> burn (onNetworkUpdated switchNetwork
              (new_Erc1155 exampleRegistry burnOnlyWrapper exampleStorage) ''other'') ''0'' ''1''
     = Resolves (Dispatch Burnable ''tokens'' [''0'', ''1''])
   \<and> burnable (new_Erc1155 exampleRegistry (switchNetwork burnOnlyWrapper ''other'') exampleStorage)
     = None
   \<and> onNetworkUpdated switchNetwork
        (new_Erc1155 exampleRegistry burnOnlyWrapper exampleStorage) ''other''
     \<noteq> new_Erc1155 exampleRegistry (switchNetwork burnOnlyWrapper ''other'') exampleStorage"
proof -
  have kept: "burnable (onNetworkUpdated switchNetwork
              (new_Erc1155 exampleRegistry burnOnlyWrapper exampleStorage) ''other'')
     = Some Erc1155Burnable"
    by (simp add: onNetworkUpdated_def burnOnly_facade)
  have fresh: "burnable (new_Erc1155 exampleRegistry (switchNetwork burnOnlyWrapper ''other'')
                  exampleStorage) = None"
    by (simp add: new_Erc1155_fields detectErc1155Burnable_def detectContractFeature_covers
        exampleRegistry_def requirement_def switchNetwork_def coreSelectors_def)
  have differ: "onNetworkUpdated switchNetwork
        (new_Erc1155 exampleRegistry burnOnlyWrapper exampleStorage) ''other''
     \<noteq> new_Erc1155 exampleRegistry (switchNetwork burnOnlyWrapper ''other'') exampleStorage"
    using kept fresh by (metis option.distinct(1))
  show ?thesis
    using kept fresh differ by (simp add: burnable_present)
qed

text \<open>
  Claim C8. Construction is idempotent with respect to the presence of capabilities.
  Two completed constructions agree on the presence of a handle in each of
  \<^verbatim>\<open>query\<close>, \<^verbatim>\<open>mintable\<close>, \<^verbatim>\<open>burnable\<close>, \<^verbatim>\<open>lazyMintable\<close> and
  \<^verbatim>\<open>signatureMintable\<close> if and only if the probe gave the same answers for the five
  capabilities: presence depends on nothing else. The probe of the specification reads
  the interface descriptor only. So two facades built over wrappers with the same
  descriptor, whatever their signers, reads and storages, hold the same handle or none
  in each of the five fields.
\<close>

theorem construction_is_idempotent:
  "(Erc1155_constructor detect cw st = Inr f \<and> Erc1155_constructor detect cw' st' = Inr f' \<longrightarrow>
      ((query f = None) = (query f' = None)
       \<and> (mintable f = None) = (mintable f' = None)
       \<and> (burnable f = None) = (burnable f' = None)
       \<and> (lazyMintable f = None) = (lazyMintable f' = None)
       \<and> (signatureMintable f = None) = (signatureMintable f' = None))
      = list_all (\<lambda>n. detect cw n = detect cw' n) facadeFeatures)
   \<and> (abi cw = abi cw' \<longrightarrow>
        specProbe reg cw n = specProbe reg cw' n
      \<and> Erc1155_constructor (specProbe reg) cw st = Inr (new_Erc1155 reg cw st)
      \<and> Erc1155_constructor (specProbe reg) cw' st' = Inr (new_Erc1155 reg cw' st')
      \<and> query (new_Erc1155 reg cw st) = query (new_Erc1155 reg cw' st')
      \<and> mintable (new_Erc1155 reg cw st) = mintable (new_Erc1155 reg cw' st')
      \<and> burnable (new_Erc1155 reg cw st) = burnable (new_Erc1155 reg cw' st')
      \<and> lazyMintable (new_Erc1155 reg cw st) = lazyMintable (new_Erc1155 reg cw' st')
      \<and> signatureMintable (new_Erc1155 reg cw st)
          = signatureMintable (new_Erc1155 reg cw' st'))"
proof -
  have presence: "((query f = None) = (query f' = None)
       \<and> (mintable f = None) = (mintable f' = None)
       \<and> (burnable f = None) = (burnable f' = None)
       \<and> (lazyMintable f = None) = (lazyMintable f' = None)
       \<and> (signatureMintable f = None) = (signatureMintable f' = None))
      = list_all (\<lambda>n. detect cw n = detect cw' n) facadeFeatures"
    if first: "Erc1155_constructor detect cw st = Inr f"
      and second: "Erc1155_constructor detect cw' st' = Inr f'"
    using constructed_fields(3-7) [OF first] constructed_fields(3-7) [OF second]
    by (simp add: facadeFeatures_def del: not_None_eq)
  have descriptor: "specProbe reg cw n = specProbe reg cw' n
      \<and> query (new_Erc1155 reg cw st) = query (new_Erc1155 reg cw' st')
      \<and> mintable (new_Erc1155 reg cw st) = mintable (new_Erc1155 reg cw' st')
      \<and> burnable (new_Erc1155 reg cw st) = burnable (new_Erc1155 reg cw' st')
      \<and> lazyMintable (new_Erc1155 reg cw st) = lazyMintable (new_Erc1155 reg cw' st')
      \<and> signatureMintable (new_Erc1155 reg cw st)
          = signatureMintable (new_Erc1155 reg cw' st')"
    if "abi cw = abi cw'"
    using that
    by (simp add: specProbe_def new_Erc1155_fields detectErc1155Enumerable_def
        detectErc1155Mintable_def detectErc1155Burnable_def detectErc1155LazyMintable_def
        detectErc1155SignatureMintable_def detectContractFeature_def new_Erc1155Mintable_def
        new_Erc1155LazyMintable_def)
  have first: "Erc1155_constructor detect cw st = Inr f
      \<and> Erc1155_constructor detect cw' st' = Inr f' \<longrightarrow>
      ((query f = None) = (query f' = None)
       \<and> (mintable f = None) = (mintable f' = None)
       \<and> (burnable f = None) = (burnable f' = None)
       \<and> (lazyMintable f = None) = (lazyMintable f' = None)
       \<and> (signatureMintable f = None) = (signatureMintable f' = None))
      = list_all (\<lambda>n. detect cw n = detect cw' n) facadeFeatures"
  proof
    assume "Erc1155_constructor detect cw st = Inr f
      \<and> Erc1155_constructor detect cw' st' = Inr f'"
    then show "((query f = None) = (query f' = None)
       \<and> (mintable f = None) = (mintable f' = None)
       \<and> (burnable f = None) = (burnable f' = None)
       \<and> (lazyMintable f = None) = (lazyMintable f' = None)
       \<and> (signatureMintable f = None) = (signatureMintable f' = None))
      = list_all (\<lambda>n. detect cw n = detect cw' n) facadeFeatures"
      using presence by (elim conjE)
  qed
  have second: "abi cw = abi cw' \<longrightarrow>
        specProbe reg cw n = specProbe reg cw' n
      \<and> Erc1155_constructor (specProbe reg) cw st = Inr (new_Erc1155 reg cw st)
      \<and> Erc1155_constructor (specProbe reg) cw' st' = Inr (new_Erc1155 reg cw' st')
      \<and> query (new_Erc1155 reg cw st) = query (new_Erc1155 reg cw' st')
      \<and> mintable (new_Erc1155 reg cw st) = mintable (new_Erc1155 reg cw' st')
      \<and> burnable (new_Erc1155 reg cw st) = burnable (new_Erc1155 reg cw' st')
      \<and> lazyMintable (new_Erc1155 reg cw st) = lazyMintable (new_Erc1155 reg cw' st')
      \<and> signatureMintable (new_Erc1155 reg cw st)
          = signatureMintable (new_Erc1155 reg cw' st')"
    using descriptor by (simp add: constructor_specProbe)
  from first second show ?thesis
    by (rule conjI)
qed

text \<open>
  Instances: the same contract under two signers, with the probe of the specification
  (the facades agree); the burn-only contract and the contract with the core selectors
  only (their descriptors differ, and so do the answers and the presence of the burn
  handle); and the same contract under two signers with a probe that reads the signer
  (same descriptor, and the answers and the presence of every handle differ).
\<close>

theorem construction_is_idempotent_witness:
  "abi burnOnlyWrapper = abi (switchSigner burnOnlyWrapper ''0xother'')
   \<and> burnOnlyWrapper \<noteq> switchSigner burnOnlyWrapper ''0xother''
   \<and> burnable (new_Erc1155 exampleRegistry burnOnlyWrapper exampleStorage)
       = burnable (new_Erc1155 exampleRegistry (switchSigner burnOnlyWrapper ''0xother'')
                     exampleStorage)
   \<and> mintable (new_Erc1155 exampleRegistry burnOnlyWrapper exampleStorage)
       = mintable (new_Erc1155 exampleRegistry (switchSigner burnOnlyWrapper ''0xother'')
                     exampleStorage)
   \<and> list_all (\<lambda>n. specProbe exampleRegistry burnOnlyWrapper n
                    = specProbe exampleRegistry (switchSigner burnOnlyWrapper ''0xother'') n)
        facadeFeatures
   \<and> \<not> list_all (\<lambda>n. specProbe exampleRegistry burnOnlyWrapper n
                      = specProbe exampleRegistry readOnlyWrapper n) facadeFeatures
   \<and> burnable (new_Erc1155 exampleRegistry burnOnlyWrapper exampleStorage) \<noteq> None
   \<and> burnable (new_Erc1155 exampleRegistry readOnlyWrapper exampleStorage) = None
   \<and> Erc1155_constructor signerProbe burnOnlyWrapper exampleStorage
       = Inr (everyHandle burnOnlyWrapper exampleStorage)
   \<and> Erc1155_constructor signerProbe (switchSigner burnOnlyWrapper ''0xother'') exampleStorage
       = Inr (noHandle (switchSigner burnOnlyWrapper ''0xother'') exampleStorage)
   \<and> \<not> list_all (\<lambda>n. signerProbe burnOnlyWrapper n
                      = signerProbe (switchSigner burnOnlyWrapper ''0xother'') n) facadeFeatures
   \<and> query (everyHandle burnOnlyWrapper exampleStorage) \<noteq> None
   \<and> query (noHandle (switchSigner burnOnlyWrapper ''0xother'') exampleStorage) = None"
proof -
  have same: "abi burnOnlyWrapper = abi (switchSigner burnOnlyWrapper ''0xother'')"
    by (simp add: switchSigner_def)
  have "getSignerAddress burnOnlyWrapper
          \<noteq> getSignerAddress (switchSigner burnOnlyWrapper ''0xother'')"
    by (simp add: switchSigner_def burnOnlyWrapper_def)
  then have other: "burnOnlyWrapper \<noteq> switchSigner burnOnlyWrapper ''0xother''"
    by auto
  note agree = construction_is_idempotent
    [where detect = "specProbe exampleRegistry" and reg = exampleRegistry
       and cw = burnOnlyWrapper and cw' = "switchSigner burnOnlyWrapper ''0xother''"
       and st = exampleStorage and st' = exampleStorage
       and f = "new_Erc1155 exampleRegistry burnOnlyWrapper exampleStorage"
       and f' = "new_Erc1155 exampleRegistry (switchSigner burnOnlyWrapper ''0xother'')
                   exampleStorage"]
  note differ = construction_is_idempotent
    [where detect = "specProbe exampleRegistry" and reg = exampleRegistry
       and cw = burnOnlyWrapper and cw' = readOnlyWrapper
       and st = exampleStorage and st' = exampleStorage
       and f = "new_Erc1155 exampleRegistry burnOnlyWrapper exampleStorage"
       and f' = "new_Erc1155 exampleRegistry readOnlyWrapper exampleStorage"]
  note signer = construction_is_idempotent
    [where detect = signerProbe
       and cw = burnOnlyWrapper and cw' = "switchSigner burnOnlyWrapper ''0xother''"
       and st = exampleStorage and st' = exampleStorage
       and f = "everyHandle burnOnlyWrapper exampleStorage"
       and f' = "noHandle (switchSigner burnOnlyWrapper ''0xother'') exampleStorage"]
  from agree same have fields:
    "burnable (new_Erc1155 exampleRegistry burnOnlyWrapper exampleStorage)
       = burnable (new_Erc1155 exampleRegistry (switchSigner burnOnlyWrapper ''0xother'')
                     exampleStorage)"
    "mintable (new_Erc1155 exampleRegistry burnOnlyWrapper exampleStorage)
       = mintable (new_Erc1155 exampleRegistry (switchSigner burnOnlyWrapper ''0xother'')
                     exampleStorage)"
    and built:
    "Erc1155_constructor (specProbe exampleRegistry) burnOnlyWrapper exampleStorage
       = Inr (new_Erc1155 exampleRegistry burnOnlyWrapper exampleStorage)"
    "Erc1155_constructor (specProbe exampleRegistry) (switchSigner burnOnlyWrapper ''0xother'')
         exampleStorage
       = Inr (new_Erc1155 exampleRegistry (switchSigner burnOnlyWrapper ''0xother'')
                exampleStorage)"
    and handles:
    "query (new_Erc1155 exampleRegistry burnOnlyWrapper exampleStorage)
       = query (new_Erc1155 exampleRegistry (switchSigner burnOnlyWrapper ''0xother'')
                  exampleStorage)"
    "lazyMintable (new_Erc1155 exampleRegistry burnOnlyWrapper exampleStorage)
       = lazyMintable (new_Erc1155 exampleRegistry (switchSigner burnOnlyWrapper ''0xother'')
                  exampleStorage)"
    "signatureMintable (new_Erc1155 exampleRegistry burnOnlyWrapper exampleStorage)
       = signatureMintable (new_Erc1155 exampleRegistry
                  (switchSigner burnOnlyWrapper ''0xother'') exampleStorage)"
    by blast+
  from agree built fields handles have answers:
    "list_all (\<lambda>n. specProbe exampleRegistry burnOnlyWrapper n
                    = specProbe exampleRegistry (switchSigner burnOnlyWrapper ''0xother'') n)
        facadeFeatures"
    by simp
  have present: "burnable (new_Erc1155 exampleRegistry burnOnlyWrapper exampleStorage) \<noteq> None"
    by (simp add: burnOnly_facade)
  have absent: "burnable (new_Erc1155 exampleRegistry readOnlyWrapper exampleStorage) = None"
    by (simp add: readOnly_facade)
  from differ built(1) constructor_specProbe [of exampleRegistry readOnlyWrapper exampleStorage]
    present absent
  have unlike:
    "\<not> list_all (\<lambda>n. specProbe exampleRegistry burnOnlyWrapper n
                      = specProbe exampleRegistry readOnlyWrapper n) facadeFeatures"
    by auto
  have every: "query (everyHandle burnOnlyWrapper exampleStorage) \<noteq> None"
    by (simp add: everyHandle_def)
  have none: "query (noHandle (switchSigner burnOnlyWrapper ''0xother'') exampleStorage) = None"
    by (simp add: noHandle_def)
  from signer signerProbe_constructions every none
  have mutable:
    "\<not> list_all (\<lambda>n. signerProbe burnOnlyWrapper n
                      = signerProbe (switchSigner burnOnlyWrapper ''0xother'') n) facadeFeatures"
    by auto
  from same other fields answers unlike present absent signerProbe_constructions mutable
    every none
  show ?thesis
    by blast
qed

end
